theory Spec2Isabelle
  imports Complex_Main
begin

section \<open>Numbers, errors and arrays\<close>

text \<open>
  The script \<^verbatim>\<open>docs/tutorials/rescale_AS209_weights.py\<close> computes with numpy arrays of
  IEEE floating-point numbers. The arithmetic is idealised here: a finite float is a
  \<^typ>\<open>real\<close> (a finite complex float a \<^typ>\<open>complex\<close>) and rounding is not modelled.
  What IEEE arithmetic does outside the finite numbers is kept apart from HOL's total
  division and square root: an array entry that is, or was computed from, an infinity
  or a NaN (\<^verbatim>\<open>1 / 0\<close>, the square root of a negative number, a division by a zero
  sigma) is \<open>NonFinite\<close>; the code does not trap these, and the model does not
  track which non-number the entry holds.
\<close>

datatype 'a fp = Finite 'a | NonFinite

text \<open>
  The exceptions of the script: \<open>RuntimeError\<close> is what the CASA tools raise (the script
  catches it at line 123), \<open>AssertionError\<close> carries the message of the failed
  \<^verbatim>\<open>assert\<close>, \<open>ValueError\<close> is numpy's broadcasting failure and Python's failure to
  unpack, \<open>IndexError\<close> is numpy's failure of a boolean index of the wrong shape.
\<close>

datatype error = RuntimeError | AssertionError string | ValueError | IndexError

text \<open>
  Arrays are nested lists in row-major order: \<open>[polarization, channel, sample]\<close> for
  the visibilities and the flags, \<open>[polarization, sample]\<close> for the weights. A numpy
  array is rectangular; \<open>has_shape2\<close> and \<open>has_shape3\<close> say so of a nested list. A nested
  list does not record the inner extents of an array with an axis of extent zero.
\<close>

definition has_shape2 :: "nat \<Rightarrow> nat \<Rightarrow> 'a list list \<Rightarrow> bool" where
  "has_shape2 m n a = (length a = m \<and> list_all (\<lambda>row. length row = n) a)"

definition has_shape3 :: "nat \<Rightarrow> nat \<Rightarrow> nat \<Rightarrow> 'a list list list \<Rightarrow> bool" where
  "has_shape3 l m n a = (length a = l \<and> list_all (has_shape2 m n) a)"

text \<open>The result of the scatter routine is one-dimensional or two-dimensional.\<close>

datatype 'a ndarray = Arr1 "'a list" | Arr2 "'a list list"

text \<open>\<^verbatim>\<open>a.flatten()\<close>: the entries in row-major order.\<close>

fun flatten :: "'a ndarray \<Rightarrow> 'a list" where
  "flatten (Arr1 xs) = xs"
| "flatten (Arr2 xss) = concat xss"

subsection \<open>Elementwise operations and broadcasting\<close>

fun collect :: "(error + 'a) list \<Rightarrow> error + 'a list" where
  "collect [] = Inr []"
| "collect (Inl e # rs) = Inl e"
| "collect (Inr x # rs) = (case collect rs of Inl e \<Rightarrow> Inl e | Inr xs \<Rightarrow> Inr (x # xs))"

text \<open>
  numpy's broadcasting along one axis: two extents agree when they are equal or when
  one of them is 1, and then the single entry is repeated; otherwise the operation
  raises \<open>ValueError\<close>.
\<close>

definition broadcast :: "('a \<Rightarrow> 'b \<Rightarrow> error + 'c) \<Rightarrow> 'a list \<Rightarrow> 'b list \<Rightarrow> error + 'c list" where
  "broadcast f xs ys =
     (if length xs = length ys then collect (map2 f xs ys)
      else if length xs = 1 then collect (map (f (hd xs)) ys)
      else if length ys = 1 then collect (map (\<lambda>x. f x (hd ys)) xs)
      else Inl ValueError)"

definition broadcast3 :: "('a \<Rightarrow> 'b \<Rightarrow> 'c) \<Rightarrow> 'a list list list \<Rightarrow> 'b list list list \<Rightarrow> error + 'c list list list" where
  "broadcast3 f = broadcast (broadcast (broadcast (\<lambda>x y. Inr (f x y))))"

text \<open>\<^verbatim>\<open>1 / weight\<close>, \<^verbatim>\<open>np.sqrt\<close>, \<^verbatim>\<open>sigma *= sigma_rescale\<close> and the division of a complex
  residual by a real sigma, on one entry.\<close>

definition np_reciprocal :: "real \<Rightarrow> real fp" where
  "np_reciprocal w = (if w = 0 then NonFinite else Finite (1 / w))"

fun np_sqrt :: "real fp \<Rightarrow> real fp" where
  "np_sqrt (Finite v) = (if v < 0 then NonFinite else Finite (sqrt v))"
| "np_sqrt NonFinite = NonFinite"

fun np_scale :: "real fp \<Rightarrow> real \<Rightarrow> real fp" where
  "np_scale (Finite v) r = Finite (v * r)"
| "np_scale NonFinite r = NonFinite"

fun np_divide :: "complex \<Rightarrow> real fp \<Rightarrow> complex fp" where
  "np_divide z (Finite s) = (if s = 0 then NonFinite else Finite (z / complex_of_real s))"
| "np_divide z NonFinite = NonFinite"

text \<open>Line 227: \<^verbatim>\<open>residuals = data - model_data\<close>.\<close>

definition residuals_of :: "complex list list list \<Rightarrow> complex list list list \<Rightarrow> error + complex list list list" where
  "residuals_of d m = broadcast3 (\<lambda>x y. x - y) d m"

text \<open>Lines 230 and 231: \<^verbatim>\<open>sigma = np.sqrt(1 / weight)\<close>, \<^verbatim>\<open>sigma *= sigma_rescale\<close>.\<close>

definition sigma_of :: "real list list \<Rightarrow> real \<Rightarrow> real fp list list" where
  "sigma_of w sigma_rescale =
     map (map (\<lambda>s. np_scale s sigma_rescale)) (map (map (\<lambda>x. np_sqrt (np_reciprocal x))) w)"

text \<open>\<^verbatim>\<open>sigma[:, np.newaxis, :]\<close>: a channel axis of extent 1.\<close>

definition newaxis :: "'a list list \<Rightarrow> 'a list list list" where
  "newaxis a = map (\<lambda>row. [row]) a"

text \<open>Line 234: \<^verbatim>\<open>scatter = residuals / sigma[:, np.newaxis, :]\<close>.\<close>

definition scatter_of :: "complex list list list \<Rightarrow> real fp list list \<Rightarrow> error + complex fp list list list" where
  "scatter_of residuals sigma = broadcast3 np_divide residuals (newaxis sigma)"

text \<open>\<^verbatim>\<open>a, b = arr\<close>: the first axis must have extent 2.\<close>

fun unpack2 :: "'a list \<Rightarrow> error + ('a \<times> 'a)" where
  "unpack2 [x, y] = Inr (x, y)"
| "unpack2 xs = Inl ValueError"

text \<open>
  \<^verbatim>\<open>a[mask]\<close> for a two-dimensional array and a boolean mask: the mask must have the
  shape of the array, and the result is the one-dimensional array of the entries
  where the mask is true, in row-major order. \<^verbatim>\<open>~flag\<close> negates every entry.
\<close>

definition boolean_index :: "'a list list \<Rightarrow> bool list list \<Rightarrow> error + 'a list" where
  "boolean_index a msk =
     (if map length a = map length msk
      then Inr (map fst (filter snd (zip (concat a) (concat msk))))
      else Inl IndexError)"

definition invert :: "bool list list \<Rightarrow> bool list list" where
  "invert f = map (map Not) f"

section \<open>The measurement set and the \<^verbatim>\<open>ms\<close> tool\<close>

text \<open>The columns of one spectral window that the scatter routine reads from the
  dictionary returned by \<^verbatim>\<open>ms.getdata\<close> (\<^verbatim>\<open>uvw\<close>, \<^verbatim>\<open>antenna1\<close> and \<^verbatim>\<open>antenna2\<close> are fetched
  and never read).\<close>

record query =
  data :: "complex list list list"
  model_data :: "complex list list list"
  weight :: "real list list"
  flag :: "bool list list list"

text \<open>
  Modelled from the spec: the external partition-aware data-access tool
  (\<^verbatim>\<open>casatools.ms\<close>, a library outside the repository) with its calls \<^verbatim>\<open>open\<close>,
  \<^verbatim>\<open>selectinit\<close>, \<^verbatim>\<open>getdata\<close> and \<^verbatim>\<open>close\<close>. The tool is a global object with one
  connection and one active selection. What the store answers is a parameter: which
  calls raise, and the columns of each window. A call that raises leaves the tool as
  it was.
\<close>

record ms_tool =
  is_open :: bool
  selection :: "int option"

record measurement_set =
  can_open :: bool
  can_select :: "int \<Rightarrow> bool"
  columns :: "int \<Rightarrow> query option"
  can_reset :: bool
  can_close :: bool

definition fname :: string where
  "fname = ''AS209_continuum.ms''"

definition ms_open :: "measurement_set \<Rightarrow> string \<Rightarrow> ms_tool \<Rightarrow> (error + unit) \<times> ms_tool" where
  "ms_open store name t =
     (if can_open store then (Inr (), t\<lparr>is_open := True\<rparr>) else (Inl RuntimeError, t))"

definition ms_selectinit :: "measurement_set \<Rightarrow> int \<Rightarrow> ms_tool \<Rightarrow> (error + unit) \<times> ms_tool" where
  "ms_selectinit store datadescid t =
     (if can_select store datadescid then (Inr (), t\<lparr>selection := Some datadescid\<rparr>)
      else (Inl RuntimeError, t))"

definition ms_getdata :: "measurement_set \<Rightarrow> ms_tool \<Rightarrow> (error + query) \<times> ms_tool" where
  "ms_getdata store t =
     (case selection t of
        None \<Rightarrow> (Inl RuntimeError, t)
      | Some d \<Rightarrow> (case columns store d of None \<Rightarrow> (Inl RuntimeError, t) | Some q \<Rightarrow> (Inr q, t)))"

definition ms_selectinit_reset :: "measurement_set \<Rightarrow> ms_tool \<Rightarrow> (error + unit) \<times> ms_tool" where
  "ms_selectinit_reset store t =
     (if can_reset store then (Inr (), t\<lparr>selection := None\<rparr>) else (Inl RuntimeError, t))"

definition ms_close :: "measurement_set \<Rightarrow> ms_tool \<Rightarrow> (error + unit) \<times> ms_tool" where
  "ms_close store t =
     (if can_close store then (Inr (), t\<lparr>is_open := False\<rparr>) else (Inl RuntimeError, t))"

section \<open>The scatter routine\<close>

definition model_data_empty_message :: string where
  "model_data_empty_message =
     ''MODEL_DATA column empty, retry tclean with savemodel='' @ [CHR 0x27] @ ''modelcolumn'' @ [CHR 0x27]"

text \<open>Lines 215 to 245 of \<^verbatim>\<open>get_scatter_datadescid\<close>: everything after the store has
  been read and closed. The \<^verbatim>\<open>assert\<close> statement is taken as Python runs it by default
  (assertions enabled).\<close>

definition scatter_of_query :: "query \<Rightarrow> real \<Rightarrow> bool \<Rightarrow> error + (complex fp ndarray \<times> complex fp ndarray)" where
  "scatter_of_query q sigma_rescale apply_flags =
     (if \<not> length (model_data q) > 0 then Inl (AssertionError model_data_empty_message)
      else case residuals_of (data q) (model_data q) of
        Inl e \<Rightarrow> Inl e
      | Inr residuals \<Rightarrow>
          (case scatter_of residuals (sigma_of (weight q) sigma_rescale) of
             Inl e \<Rightarrow> Inl e
           | Inr scatter \<Rightarrow>
               (case unpack2 scatter of
                  Inl e \<Rightarrow> Inl e
                | Inr (scatter_XX, scatter_YY) \<Rightarrow>
                    (case unpack2 (flag q) of
                       Inl e \<Rightarrow> Inl e
                     | Inr (flag_XX, flag_YY) \<Rightarrow>
                         if apply_flags then
                           (case boolean_index scatter_XX (invert flag_XX) of
                              Inl e \<Rightarrow> Inl e
                            | Inr xx \<Rightarrow>
                                (case boolean_index scatter_YY (invert flag_YY) of
                                   Inl e \<Rightarrow> Inl e
                                 | Inr yy \<Rightarrow> Inr (Arr1 xx, Arr1 yy)))
                         else Inr (Arr2 scatter_XX, Arr2 scatter_YY)))))"

text \<open>\<^verbatim>\<open>get_scatter_datadescid(datadescid, sigma_rescale=1.0, apply_flags=True)\<close>: the
  result or the exception, and the \<^verbatim>\<open>ms\<close> tool as the call leaves it.\<close>

definition get_scatter_datadescid ::
  "measurement_set \<Rightarrow> ms_tool \<Rightarrow> int \<Rightarrow> real \<Rightarrow> bool \<Rightarrow>
     (error + (complex fp ndarray \<times> complex fp ndarray)) \<times> ms_tool" where
  "get_scatter_datadescid store t0 datadescid sigma_rescale apply_flags =
     (case ms_open store fname t0 of
        (Inl e, t) \<Rightarrow> (Inl e, t)
      | (Inr u, t1) \<Rightarrow>
     (case ms_selectinit store datadescid t1 of
        (Inl e, t) \<Rightarrow> (Inl e, t)
      | (Inr u, t2) \<Rightarrow>
     (case ms_getdata store t2 of
        (Inl e, t) \<Rightarrow> (Inl e, t)
      | (Inr q, t3) \<Rightarrow>
     (case ms_selectinit_reset store t3 of
        (Inl e, t) \<Rightarrow> (Inl e, t)
      | (Inr u, t4) \<Rightarrow>
     (case ms_close store t4 of
        (Inl e, t) \<Rightarrow> (Inl e, t)
      | (Inr u, t5) \<Rightarrow> (scatter_of_query q sigma_rescale apply_flags, t5))))))"

section \<open>The reference Gaussian and the histograms\<close>

text \<open>Line 264: \<^verbatim>\<open>1 / np.sqrt(2 * np.pi) * np.exp(-0.5 * x ** 2)\<close>.\<close>

definition gaussian :: "real \<Rightarrow> real" where
  "gaussian x = 1 / sqrt (2 * pi) * exp (- 0.5 * x ^ 2)"















section \<open>Well-behaved stores and a synthetic window\<close>

text \<open>The store serves window \<open>d\<close> with the columns \<open>q\<close>: none of the five calls of the
  scatter routine raises, and \<^verbatim>\<open>getdata\<close> returns \<open>q\<close>.\<close>

definition serves :: "measurement_set \<Rightarrow> int \<Rightarrow> query \<Rightarrow> bool" where
  "serves store d q =
     (can_open store \<and> can_select store d \<and> columns store d = Some q \<and>
      can_reset store \<and> can_close store)"

text \<open>A store that holds the same columns for every window, and one whose \<^verbatim>\<open>getdata\<close>
  raises.\<close>

definition store_of :: "query \<Rightarrow> measurement_set" where
  "store_of q =
     \<lparr>can_open = True, can_select = (\<lambda>d. True), columns = (\<lambda>d. Some q),
      can_reset = True, can_close = True\<rparr>"

definition unreadable_store :: measurement_set where
  "unreadable_store =
     \<lparr>can_open = True, can_select = (\<lambda>d. True), columns = (\<lambda>d. None),
      can_reset = True, can_close = True\<rparr>"

definition closed_tool :: ms_tool where
  "closed_tool = \<lparr>is_open = False, selection = None\<rparr>"

text \<open>The window of the end-to-end scenario: 2 polarizations, 1 channel, 3 samples.\<close>

definition synthetic_window :: query where
  "synthetic_window =
     \<lparr>data = [[[2, 0, - 2]], [[4, 0, - 4]]],
      model_data = [[[0, 0, 0]], [[0, 0, 0]]],
      weight = [[1, 1, 1], [4, 4, 4]],
      flag = [[[False, False, False]], [[False, False, False]]]\<rparr>"

text \<open>A window of 2 polarizations, 2 channels and 2 samples, with two samples of the
  first polarization and every sample of the second flagged.\<close>

definition two_channel_window :: query where
  "two_channel_window =
     \<lparr>data = [[[1, 2 + \<i>], [3, 4]], [[5, 6], [7, 8]]],
      model_data = [[[0, \<i>], [1, 0]], [[0, 0], [0, 0]]],
      weight = [[1, 4], [1, 1]],
      flag = [[[False, True], [True, False]], [[True, True], [True, True]]]\<rparr>"

text \<open>The same window with every sample of both polarizations flagged.\<close>

definition all_flagged_window :: query where
  "all_flagged_window =
     two_channel_window\<lparr>flag := [[[True, True], [True, True]], [[True, True], [True, True]]]\<rparr>"


section \<open>Broadcasting on arrays of one shape\<close>

lemma collect_map_Inr:
  "(\<And>x. x \<in> set xs \<Longrightarrow> f x = Inr (g x)) \<Longrightarrow> collect (map f xs) = Inr (map g xs)"
  by (induction xs) simp_all

lemma broadcast_same:
  assumes "length xs = length ys"
    and "\<And>x y. (x, y) \<in> set (zip xs ys) \<Longrightarrow> f x y = Inr (g x y)"
  shows "broadcast f xs ys = Inr (map2 g xs ys)"
proof -
  have "collect (map2 f xs ys) = Inr (map2 g xs ys)"
    by (rule collect_map_Inr) (use assms(2) in auto)
  then show ?thesis
    using assms(1) by (simp add: broadcast_def)
qed

lemma broadcast_single:
  assumes "\<And>x. x \<in> set xs \<Longrightarrow> f x y = Inr (g x)"
  shows "broadcast f xs [y] = Inr (map g xs)"
proof (cases "length xs = 1")
  case True
  then obtain x where xs: "xs = [x]" by (cases xs) auto
  with assms show ?thesis by (simp add: broadcast_def)
next
  case False
  have "collect (map (\<lambda>x. f x y) xs) = Inr (map g xs)"
    by (rule collect_map_Inr) (use assms in auto)
  with False show ?thesis
    by (simp add: broadcast_def)
qed

lemma get_scatter_served:
  assumes "serves store d q"
  shows "get_scatter_datadescid store t d r af =
           (scatter_of_query q r af, t\<lparr>is_open := False, selection := None\<rparr>)"
  using assms
  by (simp add: serves_def get_scatter_datadescid_def ms_open_def ms_selectinit_def
      ms_getdata_def ms_selectinit_reset_def ms_close_def)

lemma has_shape2_nth: "has_shape2 m n a \<Longrightarrow> c < m \<Longrightarrow> length (a ! c) = n"
  by (simp add: has_shape2_def list_all_length)

lemma has_shape3_nth: "has_shape3 l m n a \<Longrightarrow> p < l \<Longrightarrow> has_shape2 m n (a ! p)"
  by (simp add: has_shape3_def list_all_length)

lemma has_shape2_length: "has_shape2 m n a \<Longrightarrow> length a = m"
  by (simp add: has_shape2_def)

lemma has_shape3_length: "has_shape3 l m n a \<Longrightarrow> length a = l"
  by (simp add: has_shape3_def)

lemma has_shape2_mem: "has_shape2 m n a \<Longrightarrow> row \<in> set a \<Longrightarrow> length row = n"
  by (simp add: has_shape2_def list_all_iff)

lemma has_shape3_mem: "has_shape3 l m n a \<Longrightarrow> x \<in> set a \<Longrightarrow> has_shape2 m n x"
  by (simp add: has_shape3_def list_all_iff)

lemma broadcast_rows:
  assumes "length x = length y"
  shows "broadcast (\<lambda>u v. Inr (f u v)) x y = Inr (map2 f x y)"
  using assms by (rule broadcast_same) simp

lemma broadcast_planes:
  assumes "has_shape2 m n x" and "has_shape2 m n y"
  shows "broadcast (broadcast (\<lambda>u v. Inr (f u v))) x y = Inr (map2 (map2 f) x y)"
proof (rule broadcast_same)
  show "length x = length y"
    using assms by (simp add: has_shape2_def)
next
  fix u v assume "(u, v) \<in> set (zip x y)"
  then have "u \<in> set x" "v \<in> set y"
    by (auto dest: set_zip_leftD set_zip_rightD)
  then have "length u = length v"
    using assms by (simp add: has_shape2_mem)
  then show "broadcast (\<lambda>u v. Inr (f u v)) u v = Inr (map2 f u v)"
    by (rule broadcast_rows)
qed

lemma broadcast3_same:
  assumes "has_shape3 l m n a" and "has_shape3 l m n b"
  shows "broadcast3 f a b = Inr (map2 (map2 (map2 f)) a b)"
  unfolding broadcast3_def
proof (rule broadcast_same)
  show "length a = length b"
    using assms by (simp add: has_shape3_def)
next
  fix x y assume "(x, y) \<in> set (zip a b)"
  then have "x \<in> set a" "y \<in> set b"
    by (auto dest: set_zip_leftD set_zip_rightD)
  then have "has_shape2 m n x" "has_shape2 m n y"
    using assms by (auto dest: has_shape3_mem)
  then show "broadcast (broadcast (\<lambda>u v. Inr (f u v))) x y = Inr (map2 (map2 f) x y)"
    by (rule broadcast_planes)
qed

lemma broadcast3_newaxis:
  assumes "has_shape3 l m n a" and "has_shape2 l n b"
  shows "broadcast3 f a (newaxis b) = Inr (map2 (\<lambda>rows srow. map (\<lambda>row. map2 f row srow) rows) a b)"
proof -
  have "broadcast (broadcast (broadcast (\<lambda>u v. Inr (f u v)))) a (newaxis b)
      = Inr (map2 (\<lambda>rows y. map (\<lambda>row. map2 f row (hd y)) rows) a (newaxis b))"
  proof (rule broadcast_same)
    show "length a = length (newaxis b)"
      using assms by (simp add: has_shape3_def has_shape2_def newaxis_def)
  next
    fix x y assume xy: "(x, y) \<in> set (zip a (newaxis b))"
    then have x: "x \<in> set a" and "y \<in> set (newaxis b)"
      by (auto dest: set_zip_leftD set_zip_rightD)
    then obtain srow where y: "y = [srow]" and srow: "srow \<in> set b"
      by (auto simp: newaxis_def)
    have "broadcast (broadcast (\<lambda>u v. Inr (f u v))) x [srow] = Inr (map (\<lambda>row. map2 f row srow) x)"
    proof (rule broadcast_single)
      fix row assume "row \<in> set x"
      then have "length row = n"
        using assms(1) x by (auto dest: has_shape3_mem has_shape2_mem)
      moreover have "length srow = n"
        using assms(2) srow by (rule has_shape2_mem)
      ultimately show "broadcast (\<lambda>u v. Inr (f u v)) row srow = Inr (map2 f row srow)"
        by (simp add: broadcast_rows)
    qed
    then show "broadcast (broadcast (\<lambda>u v. Inr (f u v))) x y = Inr (map (\<lambda>row. map2 f row (hd y)) x)"
      by (simp add: y)
  qed
  moreover have "map2 (\<lambda>rows y. map (\<lambda>row. map2 f row (hd y)) rows) a (newaxis b)
      = map2 (\<lambda>rows srow. map (\<lambda>row. map2 f row srow) rows) a b"
    by (simp add: newaxis_def zip_map2 case_prod_unfold)
  ultimately show ?thesis
    by (simp add: broadcast3_def)
qed

lemma map2_3_nth:
  assumes "has_shape3 l m n a" and "has_shape3 l m n b" and "p < l" and "c < m" and "s < n"
  shows "map2 (map2 (map2 f)) a b ! p ! c ! s = f (a ! p ! c ! s) (b ! p ! c ! s)"
proof -
  have la: "length a = l" "length b = l"
    using assms by (simp_all add: has_shape3_def)
  have sa: "has_shape2 m n (a ! p)" "has_shape2 m n (b ! p)"
    using assms by (simp_all add: has_shape3_nth)
  then have lp: "length (a ! p) = m" "length (b ! p) = m"
    by (simp_all add: has_shape2_def)
  have lc: "length (a ! p ! c) = n" "length (b ! p ! c) = n"
    using sa assms by (simp_all add: has_shape2_nth)
  show ?thesis
    using assms la lp lc by simp
qed

lemma map2_3_shape:
  assumes "has_shape3 l m n a" and "has_shape3 l m n b"
  shows "has_shape3 l m n (map2 (map2 (map2 f)) a b)"
proof -
  have "has_shape2 m n (map2 (map2 f) x y)" if "has_shape2 m n x" "has_shape2 m n y" for x y
    using that by (simp add: has_shape2_def list_all_length)
  then show ?thesis
    using assms by (simp add: has_shape3_def list_all_length)
qed

lemma newaxis_shape:
  assumes "has_shape3 l m n a" and "has_shape2 l n b"
  shows "has_shape3 l m n (map2 (\<lambda>rows srow. map (\<lambda>row. map2 f row srow) rows) a b)"
  using assms by (simp add: has_shape3_def has_shape2_def list_all_length)

lemma newaxis_nth:
  assumes "has_shape3 l m n a" and "has_shape2 l n b" and "p < l" and "c < m" and "s < n"
  shows "map2 (\<lambda>rows srow. map (\<lambda>row. map2 f row srow) rows) a b ! p ! c ! s
           = f (a ! p ! c ! s) (b ! p ! s)"
  using assms by (simp add: has_shape3_def has_shape2_def list_all_length)

lemma unpack2_length: "length xs = 2 \<Longrightarrow> unpack2 xs = Inr (xs ! 0, xs ! 1)"
  by (cases xs rule: unpack2.cases) simp_all

lemma unpack2_Inr: "unpack2 xs = Inr (x, y) \<Longrightarrow> xs = [x, y]"
  by (cases xs rule: unpack2.cases) simp_all

lemma sigma_of_shape: "has_shape2 l n w \<Longrightarrow> has_shape2 l n (sigma_of w r)"
  by (simp add: has_shape2_def sigma_of_def list_all_length)

lemma sigma_of_nth:
  "has_shape2 l n w \<Longrightarrow> p < l \<Longrightarrow> s < n \<Longrightarrow>
     sigma_of w r ! p ! s = np_scale (np_sqrt (np_reciprocal (w ! p ! s))) r"
  by (simp add: has_shape2_def sigma_of_def list_all_length)

lemma scatter_defined:
  assumes d: "has_shape3 l m n dat" and md: "has_shape3 l m n mdl" and w: "has_shape2 l n w"
  shows "\<exists>res sc. residuals_of dat mdl = Inr res \<and> scatter_of res (sigma_of w r) = Inr sc \<and>
           has_shape3 l m n sc \<and>
           (\<forall>p<l. \<forall>c<m. \<forall>s<n. sc ! p ! c ! s =
              np_divide (dat ! p ! c ! s - mdl ! p ! c ! s) (sigma_of w r ! p ! s))"
proof -
  define res where "res = map2 (map2 (map2 (\<lambda>x y. x - y))) dat mdl"
  define sc where "sc = map2 (\<lambda>rows srow. map (\<lambda>row. map2 np_divide row srow) rows) res (sigma_of w r)"
  have res: "residuals_of dat mdl = Inr res"
    unfolding residuals_of_def res_def using d md by (rule broadcast3_same)
  have rs: "has_shape3 l m n res"
    unfolding res_def using d md by (rule map2_3_shape)
  have sg: "has_shape2 l n (sigma_of w r)"
    using w by (rule sigma_of_shape)
  have sc: "scatter_of res (sigma_of w r) = Inr sc"
    unfolding scatter_of_def sc_def using rs sg by (rule broadcast3_newaxis)
  have ss: "has_shape3 l m n sc"
    unfolding sc_def using rs sg by (rule newaxis_shape)
  have "sc ! p ! c ! s = np_divide (dat ! p ! c ! s - mdl ! p ! c ! s) (sigma_of w r ! p ! s)"
    if "p < l" "c < m" "s < n" for p c s
  proof -
    have "sc ! p ! c ! s = np_divide (res ! p ! c ! s) (sigma_of w r ! p ! s)"
      unfolding sc_def using rs sg that by (rule newaxis_nth)
    moreover have "res ! p ! c ! s = dat ! p ! c ! s - mdl ! p ! c ! s"
      unfolding res_def using d md that by (rule map2_3_nth)
    ultimately show ?thesis by simp
  qed
  with res sc ss show ?thesis by blast
qed

lemma scatter_of_query_unflagged:
  assumes d: "has_shape3 2 m n (data q)" and md: "has_shape3 2 m n (model_data q)"
    and w: "has_shape2 2 n (weight q)" and f: "length (flag q) = 2"
  shows "\<exists>sx sy. scatter_of_query q r False = Inr (Arr2 sx, Arr2 sy) \<and>
           has_shape2 m n sx \<and> has_shape2 m n sy \<and>
           (\<forall>c<m. \<forall>s<n.
              sx ! c ! s = np_divide (data q ! 0 ! c ! s - model_data q ! 0 ! c ! s) (sigma_of (weight q) r ! 0 ! s) \<and>
              sy ! c ! s = np_divide (data q ! 1 ! c ! s - model_data q ! 1 ! c ! s) (sigma_of (weight q) r ! 1 ! s))"
proof -
  from scatter_defined [OF d md w, of r] obtain res sc where
    res: "residuals_of (data q) (model_data q) = Inr res" and
    sc: "scatter_of res (sigma_of (weight q) r) = Inr sc" and
    ss: "has_shape3 2 m n sc" and
    nth: "\<And>p c s. p < 2 \<Longrightarrow> c < m \<Longrightarrow> s < n \<Longrightarrow>
            sc ! p ! c ! s = np_divide (data q ! p ! c ! s - model_data q ! p ! c ! s) (sigma_of (weight q) r ! p ! s)"
    by blast
  have len: "length sc = 2" "0 < length (model_data q)"
    using ss md by (simp_all add: has_shape3_def)
  have "scatter_of_query q r False = Inr (Arr2 (sc ! 0), Arr2 (sc ! 1))"
    using res sc len f by (simp add: scatter_of_query_def unpack2_length)
  moreover have "has_shape2 m n (sc ! 0)" "has_shape2 m n (sc ! 1)"
    using ss by (simp_all add: has_shape3_nth)
  moreover have "\<forall>c<m. \<forall>s<n.
      sc ! 0 ! c ! s = np_divide (data q ! 0 ! c ! s - model_data q ! 0 ! c ! s) (sigma_of (weight q) r ! 0 ! s) \<and>
      sc ! 1 ! c ! s = np_divide (data q ! 1 ! c ! s - model_data q ! 1 ! c ! s) (sigma_of (weight q) r ! 1 ! s)"
    using nth by simp
  ultimately show ?thesis by blast
qed

lemma scatter_of_query_flagged:
  assumes "scatter_of_query q r False = Inr (Arr2 sx, Arr2 sy)" and "flag q = [fx, fy]"
  shows "scatter_of_query q r True =
           (case boolean_index sx (invert fx) of
              Inl e \<Rightarrow> Inl e
            | Inr xx \<Rightarrow> (case boolean_index sy (invert fy) of
                          Inl e \<Rightarrow> Inl e
                        | Inr yy \<Rightarrow> Inr (Arr1 xx, Arr1 yy)))"
  using assms
  by (auto simp: scatter_of_query_def split: if_splits sum.splits prod.splits)

lemma sigma_entry_positive:
  "0 < w \<Longrightarrow> np_scale (np_sqrt (np_reciprocal w)) r = Finite (sqrt (1 / w) * r)"
  by (simp add: np_reciprocal_def)

lemma positive_nth:
  assumes "has_shape2 l n w" and "list_all (list_all (\<lambda>x. 0 < x)) w" and "p < l" and "s < n"
  shows "0 < w ! p ! s"
proof -
  have "w ! p \<in> set w" "length (w ! p) = n"
    using assms by (simp_all add: has_shape2_def list_all_length)
  then have "w ! p ! s \<in> set (w ! p)"
    using assms(4) by simp
  with \<open>w ! p \<in> set w\<close> assms(2) show ?thesis by (auto simp: list_all_iff)
qed

section \<open>Boolean indexing in row-major order\<close>

lemma concat_index:
  assumes "has_shape2 m n a"
  shows "concat a = map (\<lambda>(c, s). a ! c ! s) (List.product [0..<m] [0..<n])"
proof -
  have len: "length a = m" and row: "\<And>c. c < m \<Longrightarrow> length (a ! c) = n"
    using assms by (simp_all add: has_shape2_def list_all_length)
  have "a = map (\<lambda>c. a ! c) [0..<m]"
    by (metis len map_nth)
  also have "\<dots> = map (\<lambda>c. map (\<lambda>s. a ! c ! s) [0..<n]) [0..<m]"
  proof (rule map_cong [OF refl])
    fix c assume "c \<in> set [0..<m]"
    then have "length (a ! c) = n" using row by simp
    then show "a ! c = map (\<lambda>s. a ! c ! s) [0..<n]"
      using map_nth [of "a ! c"] by simp
  qed
  finally have "concat a = concat (map (\<lambda>c. map (\<lambda>s. a ! c ! s) [0..<n]) [0..<m])"
    by simp
  also have "\<dots> = map (\<lambda>(c, s). a ! c ! s) (List.product [0..<m] [0..<n])"
    by (simp add: product_concat_map map_concat comp_def)
  finally show ?thesis .
qed

lemma invert_shape: "has_shape2 m n f \<Longrightarrow> has_shape2 m n (invert f)"
  by (simp add: has_shape2_def invert_def list_all_length)

lemma invert_nth: "has_shape2 m n f \<Longrightarrow> c < m \<Longrightarrow> s < n \<Longrightarrow> invert f ! c ! s = (\<not> f ! c ! s)"
  by (simp add: has_shape2_def invert_def list_all_length)

lemma same_shape_lengths:
  assumes "has_shape2 m n a" and "has_shape2 m n b"
  shows "map length a = map length b"
  using assms by (simp add: has_shape2_def list_all_length list_eq_iff_nth_eq)

lemma boolean_index_unflagged:
  assumes a: "has_shape2 m n a" and f: "has_shape2 m n f"
  shows "boolean_index a (invert f)
           = Inr (map (\<lambda>(c, s). a ! c ! s)
                    (filter (\<lambda>(c, s). \<not> f ! c ! s) (List.product [0..<m] [0..<n])))"
proof -
  let ?P = "List.product [0..<m] [0..<n]"
  have nf: "has_shape2 m n (invert f)"
    using f by (rule invert_shape)
  have "concat (invert f) = map (\<lambda>(c, s). invert f ! c ! s) ?P"
    using nf by (rule concat_index)
  also have "\<dots> = map (\<lambda>(c, s). \<not> f ! c ! s) ?P"
    by (rule map_cong [OF refl]) (auto simp: invert_nth [OF f])
  finally have cf: "concat (invert f) = map (\<lambda>(c, s). \<not> f ! c ! s) ?P" .
  have ca: "concat a = map (\<lambda>(c, s). a ! c ! s) ?P"
    using a by (rule concat_index)
  have "zip (concat a) (concat (invert f)) = map (\<lambda>x. (case x of (c, s) \<Rightarrow> a ! c ! s, case x of (c, s) \<Rightarrow> \<not> f ! c ! s)) ?P"
    unfolding ca cf by (simp add: zip_map_map zip_same_conv_map)
  then have "map fst (filter snd (zip (concat a) (concat (invert f))))
      = map (\<lambda>(c, s). a ! c ! s) (filter (\<lambda>(c, s). \<not> f ! c ! s) ?P)"
    by (simp add: filter_map comp_def case_prod_unfold)
  moreover have "map length a = map length (invert f)"
    using a nf by (rule same_shape_lengths)
  ultimately show ?thesis
    by (simp add: boolean_index_def)
qed

lemma count_unflagged:
  assumes f: "has_shape2 m n f"
  shows "length (filter (\<lambda>(c, s). \<not> f ! c ! s) (List.product [0..<m] [0..<n]))
           = length (filter Not (concat f))"
proof -
  have "concat f = map (\<lambda>(c, s). f ! c ! s) (List.product [0..<m] [0..<n])"
    using f by (rule concat_index)
  then show ?thesis
    by (simp add: filter_map comp_def case_prod_unfold)
qed

lemma scatter_of_query_applied:
  assumes d: "has_shape3 2 m n (data q)" and md: "has_shape3 2 m n (model_data q)"
    and w: "has_shape2 2 n (weight q)" and f: "has_shape3 2 m n (flag q)"
  shows "\<exists>sx sy. scatter_of_query q r False = Inr (Arr2 sx, Arr2 sy) \<and>
           has_shape2 m n sx \<and> has_shape2 m n sy \<and>
           scatter_of_query q r True =
             Inr (Arr1 (map (\<lambda>(c, s). sx ! c ! s)
                          (filter (\<lambda>(c, s). \<not> flag q ! 0 ! c ! s) (List.product [0..<m] [0..<n]))),
                  Arr1 (map (\<lambda>(c, s). sy ! c ! s)
                          (filter (\<lambda>(c, s). \<not> flag q ! 1 ! c ! s) (List.product [0..<m] [0..<n]))))"
proof -
  have fl: "length (flag q) = 2"
    using f by (simp add: has_shape3_def)
  from scatter_of_query_unflagged [OF d md w fl, of r] obtain sx sy where
    run: "scatter_of_query q r False = Inr (Arr2 sx, Arr2 sy)" and
    sx: "has_shape2 m n sx" and sy: "has_shape2 m n sy"
    by blast
  have fq: "flag q = [flag q ! 0, flag q ! 1]"
    using fl unpack2_length [of "flag q"] by (auto dest: unpack2_Inr)
  have f0: "has_shape2 m n (flag q ! 0)" and f1: "has_shape2 m n (flag q ! 1)"
    using f by (simp_all add: has_shape3_nth)
  have "scatter_of_query q r True =
          (case boolean_index sx (invert (flag q ! 0)) of
             Inl e \<Rightarrow> Inl e
           | Inr xx \<Rightarrow> (case boolean_index sy (invert (flag q ! 1)) of
                         Inl e \<Rightarrow> Inl e
                       | Inr yy \<Rightarrow> Inr (Arr1 xx, Arr1 yy)))"
    using run fq by (rule scatter_of_query_flagged)
  then have "scatter_of_query q r True =
      Inr (Arr1 (map (\<lambda>(c, s). sx ! c ! s)
                   (filter (\<lambda>(c, s). \<not> flag q ! 0 ! c ! s) (List.product [0..<m] [0..<n]))),
           Arr1 (map (\<lambda>(c, s). sy ! c ! s)
                   (filter (\<lambda>(c, s). \<not> flag q ! 1 ! c ! s) (List.product [0..<m] [0..<n]))))"
    by (simp only: boolean_index_unflagged [OF sx f0] boolean_index_unflagged [OF sy f1] sum.case)
  with run sx sy show ?thesis by blast
qed

lemma scatter_of_query_error:
  "scatter_of_query q r False = Inl e \<Longrightarrow> scatter_of_query q r True = Inl e"
  by (auto simp: scatter_of_query_def split: if_splits sum.splits prod.splits)

lemma scatter_of_query_flag_length:
  "scatter_of_query q r False = Inr res \<Longrightarrow> length (flag q) = 2"
  by (auto simp: scatter_of_query_def split: if_splits sum.splits prod.splits dest: unpack2_Inr)

lemma all_false_nth:
  assumes "list_all (list_all (list_all Not)) f" and "has_shape3 l m n f"
    and "p < l" and "c < m" and "s < n"
  shows "\<not> f ! p ! c ! s"
  using assms by (simp add: has_shape3_def has_shape2_def list_all_length)

lemma all_true_nth:
  assumes "list_all (list_all id) f" and "has_shape2 m n f" and "c < m" and "s < n"
  shows "f ! c ! s"
  using assms by (simp add: has_shape2_def list_all_length)

section \<open>The example windows\<close>

lemmas run_simps = get_scatter_datadescid_def ms_open_def ms_selectinit_def
  ms_getdata_def ms_selectinit_reset_def ms_close_def store_of_def closed_tool_def
  scatter_of_query_def residuals_of_def scatter_of_def sigma_of_def newaxis_def
  broadcast3_def broadcast_def np_reciprocal_def boolean_index_def invert_def
  real_sqrt_divide

lemma two_channel_shapes:
  "has_shape3 2 2 2 (data two_channel_window)" "has_shape3 2 2 2 (model_data two_channel_window)"
  "has_shape2 2 2 (weight two_channel_window)" "has_shape3 2 2 2 (flag two_channel_window)"
  by (simp_all add: two_channel_window_def has_shape3_def has_shape2_def)

lemma synthetic_shapes:
  "has_shape3 2 1 3 (data synthetic_window)" "has_shape3 2 1 3 (model_data synthetic_window)"
  "has_shape2 2 3 (weight synthetic_window)" "has_shape3 2 1 3 (flag synthetic_window)"
  by (simp_all add: synthetic_window_def has_shape3_def has_shape2_def)

lemma serves_store_of: "serves (store_of q) d q"
  by (simp add: serves_def store_of_def)

lemma two_channel_unflagged_value:
  "fst (get_scatter_datadescid (store_of two_channel_window) closed_tool 3 1 False)
     = Inr (Arr2 [[Finite 1, Finite 4], [Finite 2, Finite 8]],
            Arr2 [[Finite 5, Finite 6], [Finite 7, Finite 8]])"
  by (simp add: run_simps two_channel_window_def)

lemma two_channel_flagged_value:
  "fst (get_scatter_datadescid (store_of two_channel_window) closed_tool 3 1 True)
     = Inr (Arr1 [Finite 1, Finite 8], Arr1 [])"
  by (simp add: run_simps two_channel_window_def)

lemma two_channel_rescaled_value:
  "fst (get_scatter_datadescid (store_of two_channel_window) closed_tool 3 (2 * 1) True)
     = Inr (Arr1 [Finite (1 / 2), Finite 4], Arr1 [])"
  by (simp add: run_simps two_channel_window_def)

section \<open>The end-to-end scenario\<close>

text \<open>
  Claim C1, as the specification states it: for the synthetic window with weights
  \<open>[[1,1,1],[4,4,4]]\<close>, residuals \<open>[[2,0,-2],[4,0,-4]]\<close> and rescale 1 the scatter of
  both polarizations is \<open>[2,0,-2]\<close>. The code computes \<open>sigma = sqrt (1 / weight)\<close>, which
  is \<open>1 / 2\<close> for weight 4, so the second polarization is not \<open>[2,0,-2]\<close>: the statement
  fails, with the flags applied (no sample is flagged) and without.
\<close>

theorem synthetic_window_scatter_counterexample:
  "fst (get_scatter_datadescid (store_of synthetic_window) closed_tool 0 1 False)
     \<noteq> Inr (Arr2 [[Finite 2, Finite 0, Finite (- 2)]], Arr2 [[Finite 2, Finite 0, Finite (- 2)]]) \<and>
   fst (get_scatter_datadescid (store_of synthetic_window) closed_tool 0 1 True)
     \<noteq> Inr (Arr1 [Finite 2, Finite 0, Finite (- 2)], Arr1 [Finite 2, Finite 0, Finite (- 2)])"
  by (simp add: run_simps synthetic_window_def)

text \<open>
  Claim C1, amended: for every window of 2 polarizations, 1 channel and 3 samples with
  weights \<open>[[1,1,1],[4,4,4]]\<close> whose residuals \<open>data - model_data\<close> are
  \<open>[[2,0,-2],[4,0,-4]]\<close>, and rescale 1, the scatter routine returns \<open>[2,0,-2]\<close> for the
  first polarization and \<open>[8,0,-8]\<close> for the second (sigma is 1 and \<open>1 / 2\<close>): as
  \<open>[channel, sample]\<close> arrays when the flags are not applied, and as one-dimensional
  arrays when they are applied and no sample is flagged.
\<close>

theorem synthetic_window_scatter:
  assumes "serves store d q"
    and "has_shape3 2 1 3 (data q)" and "has_shape3 2 1 3 (model_data q)"
    and "residuals_of (data q) (model_data q) = Inr [[[2, 0, - 2]], [[4, 0, - 4]]]"
    and "weight q = [[1, 1, 1], [4, 4, 4]]"
    and "length (flag q) = 2"
  shows "fst (get_scatter_datadescid store t d 1 False)
           = Inr (Arr2 [[Finite 2, Finite 0, Finite (- 2)]], Arr2 [[Finite 8, Finite 0, Finite (- 8)]]) \<and>
         (flag q = [[[False, False, False]], [[False, False, False]]] \<longrightarrow>
          fst (get_scatter_datadescid store t d 1 True)
           = Inr (Arr1 [Finite 2, Finite 0, Finite (- 2)], Arr1 [Finite 8, Finite 0, Finite (- 8)]))"
proof -
  have len: "0 < length (model_data q)"
    using assms(3) by (simp add: has_shape3_def)
  have sc: "scatter_of [[[2, 0, - 2]], [[4, 0, - 4]]] (sigma_of [[1, 1, 1], [4, 4, 4]] 1)
      = Inr [[[Finite 2, Finite 0, Finite (- 2)]], [[Finite 8, Finite 0, Finite (- 8)]]]"
    by (simp add: scatter_of_def sigma_of_def newaxis_def broadcast3_def broadcast_def
        np_reciprocal_def real_sqrt_divide)
  have "scatter_of_query q 1 False
      = Inr (Arr2 [[Finite 2, Finite 0, Finite (- 2)]], Arr2 [[Finite 8, Finite 0, Finite (- 8)]])"
    using len assms(4,5,6) sc by (simp add: scatter_of_query_def unpack2_length)
  moreover have "scatter_of_query q 1 True
      = Inr (Arr1 [Finite 2, Finite 0, Finite (- 2)], Arr1 [Finite 8, Finite 0, Finite (- 8)])"
    if "flag q = [[[False, False, False]], [[False, False, False]]]"
    using len assms(4,5) sc that
    by (simp add: scatter_of_query_def boolean_index_def invert_def)
  ultimately show ?thesis
    using assms(1) by (simp add: get_scatter_served)
qed

theorem synthetic_window_scatter_witness:
  "serves (store_of synthetic_window) 0 synthetic_window \<and>
   has_shape3 2 1 3 (data synthetic_window) \<and> has_shape3 2 1 3 (model_data synthetic_window) \<and>
   residuals_of (data synthetic_window) (model_data synthetic_window) = Inr [[[2, 0, - 2]], [[4, 0, - 4]]] \<and>
   weight synthetic_window = [[1, 1, 1], [4, 4, 4]] \<and>
   flag synthetic_window = [[[False, False, False]], [[False, False, False]]] \<and>
   fst (get_scatter_datadescid (store_of synthetic_window) closed_tool 0 1 False)
     = Inr (Arr2 [[Finite 2, Finite 0, Finite (- 2)]], Arr2 [[Finite 8, Finite 0, Finite (- 8)]]) \<and>
   fst (get_scatter_datadescid (store_of synthetic_window) closed_tool 0 1 True)
     = Inr (Arr1 [Finite 2, Finite 0, Finite (- 2)], Arr1 [Finite 8, Finite 0, Finite (- 8)])"
proof -
  have h1: "serves (store_of synthetic_window) 0 synthetic_window"
    by (simp add: serves_def store_of_def)
  have h2: "has_shape3 2 1 3 (data synthetic_window)" "has_shape3 2 1 3 (model_data synthetic_window)"
    by (simp_all add: synthetic_window_def has_shape3_def has_shape2_def)
  have h3: "residuals_of (data synthetic_window) (model_data synthetic_window) = Inr [[[2, 0, - 2]], [[4, 0, - 4]]]"
    by (simp add: synthetic_window_def residuals_of_def broadcast3_def broadcast_def)
  have h4: "weight synthetic_window = [[1, 1, 1], [4, 4, 4]]"
    and h5: "flag synthetic_window = [[[False, False, False]], [[False, False, False]]]"
    by (simp_all add: synthetic_window_def)
  have h6: "length (flag synthetic_window) = 2"
    by (simp add: h5)
  show ?thesis
    using h1 h2 h3 h4 h5 synthetic_window_scatter [OF h1 h2 h3 h4 h6, of closed_tool] by simp
qed

section \<open>The missing model column\<close>

text \<open>
  Claim C2: whenever the store serves the window and the fetched \<^verbatim>\<open>model_data\<close> array has
  length zero, the scatter routine raises the assertion error for the missing model
  column (the specification's \<open>MissingModelData\<close>) and returns no result, whatever the
  other columns, the rescale factor and the flag option are.
\<close>

theorem missing_model_data_raises:
  assumes "serves store d q" and "length (model_data q) = 0"
  shows "fst (get_scatter_datadescid store t d r af) = Inl (AssertionError model_data_empty_message)"
  using assms by (simp add: get_scatter_served scatter_of_query_def)

theorem missing_model_data_raises_witness:
  "serves (store_of (synthetic_window\<lparr>model_data := []\<rparr>)) 7 (synthetic_window\<lparr>model_data := []\<rparr>) \<and>
   length (model_data (synthetic_window\<lparr>model_data := []\<rparr>)) = 0 \<and>
   fst (get_scatter_datadescid (store_of (synthetic_window\<lparr>model_data := []\<rparr>)) closed_tool 7 1 True)
     = Inl (AssertionError model_data_empty_message)"
proof -
  have h1: "serves (store_of (synthetic_window\<lparr>model_data := []\<rparr>)) 7 (synthetic_window\<lparr>model_data := []\<rparr>)"
    by (simp add: serves_def store_of_def)
  have h2: "length (model_data (synthetic_window\<lparr>model_data := []\<rparr>)) = 0"
    by simp
  show ?thesis
    using h1 h2 missing_model_data_raises [OF h1 h2, of closed_tool 1 True] by simp
qed

section \<open>The round trip through sigma\<close>

text \<open>
  Claim C3: for every window of the data model's shapes whose weights are all strictly
  positive, and rescale 1, the scatter routine computes \<open>sigma = sqrt (1 / weight)\<close> and
  \<open>scatter = (data - model_data) / sigma\<close>, entry by entry with sigma repeated along the
  channel axis, and \<open>scatter * sigma\<close> is \<open>data - model_data\<close> again. The arithmetic is
  exact in the model, so the equation holds without a tolerance.
\<close>

theorem scatter_round_trip:
  assumes srv: "serves store d q"
    and d: "has_shape3 2 m n (data q)" and md: "has_shape3 2 m n (model_data q)"
    and w: "has_shape2 2 n (weight q)" and f: "has_shape3 2 m n (flag q)"
    and pos: "list_all (list_all (\<lambda>x. 0 < x)) (weight q)"
  shows "\<exists>sx sy. fst (get_scatter_datadescid store t d 1 False) = Inr (Arr2 sx, Arr2 sy) \<and>
           (\<forall>p<2. \<forall>c<m. \<forall>s<n.
              sigma_of (weight q) 1 ! p ! s = Finite (sqrt (1 / weight q ! p ! s)) \<and>
              [sx, sy] ! p ! c ! s =
                Finite ((data q ! p ! c ! s - model_data q ! p ! c ! s)
                          / complex_of_real (sqrt (1 / weight q ! p ! s))) \<and>
              (data q ! p ! c ! s - model_data q ! p ! c ! s)
                 / complex_of_real (sqrt (1 / weight q ! p ! s))
                 * complex_of_real (sqrt (1 / weight q ! p ! s))
               = data q ! p ! c ! s - model_data q ! p ! c ! s)"
proof -
  have fl: "length (flag q) = 2"
    using f by (simp add: has_shape3_def)
  from scatter_of_query_unflagged [OF d md w fl, of 1] obtain sx sy where
    run: "scatter_of_query q 1 False = Inr (Arr2 sx, Arr2 sy)" and
    ent: "\<And>c s. c < m \<Longrightarrow> s < n \<Longrightarrow>
            sx ! c ! s = np_divide (data q ! 0 ! c ! s - model_data q ! 0 ! c ! s) (sigma_of (weight q) 1 ! 0 ! s) \<and>
            sy ! c ! s = np_divide (data q ! 1 ! c ! s - model_data q ! 1 ! c ! s) (sigma_of (weight q) 1 ! 1 ! s)"
    by blast
  have sg: "sigma_of (weight q) 1 ! p ! s = Finite (sqrt (1 / weight q ! p ! s))"
    and nz: "sqrt (1 / weight q ! p ! s) \<noteq> 0"
    if "p < 2" "s < n" for p s
  proof -
    have "0 < weight q ! p ! s"
      using w pos that by (rule positive_nth)
    then show "sigma_of (weight q) 1 ! p ! s = Finite (sqrt (1 / weight q ! p ! s))"
      and "sqrt (1 / weight q ! p ! s) \<noteq> 0"
      using that by (simp_all add: sigma_of_nth [OF w] sigma_entry_positive)
  qed
  have "[sx, sy] ! p ! c ! s =
          Finite ((data q ! p ! c ! s - model_data q ! p ! c ! s)
                    / complex_of_real (sqrt (1 / weight q ! p ! s)))"
    if "p < 2" "c < m" "s < n" for p c s
  proof -
    from that(1) consider "p = 0" | "p = 1" by linarith
    then show ?thesis
    proof cases
      case 1
      with ent [OF that(2,3)] sg [OF that(1,3)] nz [OF that(1,3)] show ?thesis by simp
    next
      case 2
      with ent [OF that(2,3)] sg [OF that(1,3)] nz [OF that(1,3)] show ?thesis by simp
    qed
  qed
  moreover have "fst (get_scatter_datadescid store t d 1 False) = Inr (Arr2 sx, Arr2 sy)"
    using srv run by (simp add: get_scatter_served)
  ultimately show ?thesis
    using sg nz by (intro exI [of _ sx] exI [of _ sy]) simp
qed

theorem scatter_round_trip_witness:
  "serves (store_of synthetic_window) 0 synthetic_window \<and>
   has_shape3 2 1 3 (data synthetic_window) \<and> has_shape3 2 1 3 (model_data synthetic_window) \<and>
   has_shape2 2 3 (weight synthetic_window) \<and> has_shape3 2 1 3 (flag synthetic_window) \<and>
   list_all (list_all (\<lambda>x. 0 < x)) (weight synthetic_window) \<and>
   (\<exists>sx sy. fst (get_scatter_datadescid (store_of synthetic_window) closed_tool 0 1 False) = Inr (Arr2 sx, Arr2 sy) \<and>
      sigma_of (weight synthetic_window) 1 ! 1 ! 2 = Finite (sqrt (1 / 4)) \<and>
      [sx, sy] ! 1 ! 0 ! 2 = Finite ((- 4 - 0) / complex_of_real (sqrt (1 / 4))) \<and>
      (- 4 - 0) / complex_of_real (sqrt (1 / 4)) * complex_of_real (sqrt (1 / 4)) = - 4 - 0)"
proof -
  have h1: "serves (store_of synthetic_window) 0 synthetic_window"
    by (simp add: serves_def store_of_def)
  have h2: "has_shape3 2 1 3 (data synthetic_window)" "has_shape3 2 1 3 (model_data synthetic_window)"
    and h3: "has_shape2 2 3 (weight synthetic_window)"
    and h4: "has_shape3 2 1 3 (flag synthetic_window)"
    and h5: "list_all (list_all (\<lambda>x. 0 < x)) (weight synthetic_window)"
    by (simp_all add: synthetic_window_def has_shape3_def has_shape2_def)
  from scatter_round_trip [OF h1 h2 h3 h4 h5, of closed_tool] obtain sx sy where
    run: "fst (get_scatter_datadescid (store_of synthetic_window) closed_tool 0 1 False) = Inr (Arr2 sx, Arr2 sy)"
    and ent: "\<forall>p<2. \<forall>c<1. \<forall>s<3.
      sigma_of (weight synthetic_window) 1 ! p ! s = Finite (sqrt (1 / weight synthetic_window ! p ! s)) \<and>
      [sx, sy] ! p ! c ! s =
        Finite ((data synthetic_window ! p ! c ! s - model_data synthetic_window ! p ! c ! s)
                  / complex_of_real (sqrt (1 / weight synthetic_window ! p ! s))) \<and>
      (data synthetic_window ! p ! c ! s - model_data synthetic_window ! p ! c ! s)
         / complex_of_real (sqrt (1 / weight synthetic_window ! p ! s))
         * complex_of_real (sqrt (1 / weight synthetic_window ! p ! s))
       = data synthetic_window ! p ! c ! s - model_data synthetic_window ! p ! c ! s"
    by blast
  have "(1::nat) < 2" "(0::nat) < 1" "(2::nat) < 3" by simp_all
  with ent have
    "sigma_of (weight synthetic_window) 1 ! 1 ! 2 = Finite (sqrt (1 / weight synthetic_window ! 1 ! 2)) \<and>
      [sx, sy] ! 1 ! 0 ! 2 =
        Finite ((data synthetic_window ! 1 ! 0 ! 2 - model_data synthetic_window ! 1 ! 0 ! 2)
                  / complex_of_real (sqrt (1 / weight synthetic_window ! 1 ! 2))) \<and>
      (data synthetic_window ! 1 ! 0 ! 2 - model_data synthetic_window ! 1 ! 0 ! 2)
         / complex_of_real (sqrt (1 / weight synthetic_window ! 1 ! 2))
         * complex_of_real (sqrt (1 / weight synthetic_window ! 1 ! 2))
       = data synthetic_window ! 1 ! 0 ! 2 - model_data synthetic_window ! 1 ! 0 ! 2"
    by blast
  moreover have "weight synthetic_window ! 1 ! 2 = 4" "data synthetic_window ! 1 ! 0 ! 2 = - 4"
    "model_data synthetic_window ! 1 ! 0 ! 2 = 0"
    by (simp_all add: synthetic_window_def)
  ultimately have
    "sigma_of (weight synthetic_window) 1 ! 1 ! 2 = Finite (sqrt (1 / 4)) \<and>
      [sx, sy] ! 1 ! 0 ! 2 = Finite ((- 4 - 0) / complex_of_real (sqrt (1 / 4))) \<and>
      (- 4 - 0) / complex_of_real (sqrt (1 / 4)) * complex_of_real (sqrt (1 / 4)) = - 4 - 0"
    by metis
  with run h1 h2 h3 h4 h5 show ?thesis by blast
qed

section \<open>Linearity in the rescale factor\<close>

lemma rescale_linearity_unflagged:
  assumes srv: "serves store d q"
    and d: "has_shape3 2 m n (data q)" and md: "has_shape3 2 m n (model_data q)"
    and w: "has_shape2 2 n (weight q)" and f: "has_shape3 2 m n (flag q)"
    and pos: "list_all (list_all (\<lambda>x. 0 < x)) (weight q)"
    and r: "r \<noteq> 0" and k: "k \<noteq> 0"
  shows "\<exists>sx sy sx' sy'.
           fst (get_scatter_datadescid store t d r False) = Inr (Arr2 sx, Arr2 sy) \<and>
           fst (get_scatter_datadescid store t d (k * r) False) = Inr (Arr2 sx', Arr2 sy') \<and>
           (\<forall>p<2. \<forall>s<n. \<exists>v. sigma_of (weight q) r ! p ! s = Finite v \<and>
                               sigma_of (weight q) (k * r) ! p ! s = Finite (k * v)) \<and>
           (\<forall>p<2. \<forall>c<m. \<forall>s<n. \<exists>z. [sx, sy] ! p ! c ! s = Finite z \<and>
                               [sx', sy'] ! p ! c ! s = Finite (z / complex_of_real k))"
proof -
  have fl: "length (flag q) = 2"
    using f by (simp add: has_shape3_def)
  from scatter_of_query_unflagged [OF d md w fl, of r] obtain sx sy where
    run: "scatter_of_query q r False = Inr (Arr2 sx, Arr2 sy)" and
    ent: "\<And>c s. c < m \<Longrightarrow> s < n \<Longrightarrow>
            sx ! c ! s = np_divide (data q ! 0 ! c ! s - model_data q ! 0 ! c ! s) (sigma_of (weight q) r ! 0 ! s) \<and>
            sy ! c ! s = np_divide (data q ! 1 ! c ! s - model_data q ! 1 ! c ! s) (sigma_of (weight q) r ! 1 ! s)"
    by blast
  from scatter_of_query_unflagged [OF d md w fl, of "k * r"] obtain sx' sy' where
    run': "scatter_of_query q (k * r) False = Inr (Arr2 sx', Arr2 sy')" and
    ent': "\<And>c s. c < m \<Longrightarrow> s < n \<Longrightarrow>
            sx' ! c ! s = np_divide (data q ! 0 ! c ! s - model_data q ! 0 ! c ! s) (sigma_of (weight q) (k * r) ! 0 ! s) \<and>
            sy' ! c ! s = np_divide (data q ! 1 ! c ! s - model_data q ! 1 ! c ! s) (sigma_of (weight q) (k * r) ! 1 ! s)"
    by blast
  have wpos: "0 < weight q ! p ! s" if "p < 2" "s < n" for p s
    using w pos that by (rule positive_nth)
  have sg: "sigma_of (weight q) r' ! p ! s = Finite (sqrt (1 / weight q ! p ! s) * r')"
    if "p < 2" "s < n" for p s r'
    using that wpos [OF that] by (simp add: sigma_of_nth [OF w] sigma_entry_positive)
  have sigma: "\<exists>v. sigma_of (weight q) r ! p ! s = Finite v \<and>
                   sigma_of (weight q) (k * r) ! p ! s = Finite (k * v)"
    if "p < 2" "s < n" for p s
    using sg [OF that] by (simp add: mult.left_commute)
  have E: "[sx, sy] ! p ! c ! s
             = np_divide (data q ! p ! c ! s - model_data q ! p ! c ! s) (sigma_of (weight q) r ! p ! s)"
    and E': "[sx', sy'] ! p ! c ! s
             = np_divide (data q ! p ! c ! s - model_data q ! p ! c ! s) (sigma_of (weight q) (k * r) ! p ! s)"
    if "p < 2" "c < m" "s < n" for p c s
  proof -
    from that(1) consider "p = 0" | "p = 1" by linarith
    then show "[sx, sy] ! p ! c ! s
        = np_divide (data q ! p ! c ! s - model_data q ! p ! c ! s) (sigma_of (weight q) r ! p ! s)"
      using ent [OF that(2,3)] by cases simp_all
    from that(1) consider "p = 0" | "p = 1" by linarith
    then show "[sx', sy'] ! p ! c ! s
        = np_divide (data q ! p ! c ! s - model_data q ! p ! c ! s) (sigma_of (weight q) (k * r) ! p ! s)"
      using ent' [OF that(2,3)] by cases simp_all
  qed
  have scat: "\<exists>z. [sx, sy] ! p ! c ! s = Finite z \<and> [sx', sy'] ! p ! c ! s = Finite (z / complex_of_real k)"
    if "p < 2" "c < m" "s < n" for p c s
  proof -
    define res where "res = data q ! p ! c ! s - model_data q ! p ! c ! s"
    define sg0 where "sg0 = sqrt (1 / weight q ! p ! s)"
    have nz: "sg0 \<noteq> 0"
      unfolding sg0_def using wpos [OF that(1,3)] by simp
    have "[sx, sy] ! p ! c ! s = Finite (res / complex_of_real (sg0 * r))"
      using E [OF that] sg [OF that(1,3), of r] nz r by (simp add: res_def sg0_def)
    moreover have "[sx', sy'] ! p ! c ! s = Finite (res / complex_of_real (sg0 * (k * r)))"
      using E' [OF that] sg [OF that(1,3), of "k * r"] nz r k by (simp add: res_def sg0_def)
    moreover have "res / complex_of_real (sg0 * (k * r)) = res / complex_of_real (sg0 * r) / complex_of_real k"
      by (simp add: mult.assoc mult.left_commute)
    ultimately show ?thesis by simp
  qed
  have "fst (get_scatter_datadescid store t d r False) = Inr (Arr2 sx, Arr2 sy)"
    "fst (get_scatter_datadescid store t d (k * r) False) = Inr (Arr2 sx', Arr2 sy')"
    using srv run run' by (simp_all add: get_scatter_served)
  with sigma scat show ?thesis
    by blast
qed

lemma flagged_entries_related:
  assumes xx: "xx = map (\<lambda>(c, s). sx ! c ! s) P" and xx': "xx' = map (\<lambda>(c, s). sx' ! c ! s) P"
    and P: "\<And>c s. (c, s) \<in> set P \<Longrightarrow> c < m \<and> s < n"
    and rel: "\<And>c s. c < m \<Longrightarrow> s < n \<Longrightarrow>
                \<exists>z. sx ! c ! s = Finite z \<and> sx' ! c ! s = Finite (z / complex_of_real k)"
  shows "length xx' = length xx \<and>
         (\<forall>i<length xx. \<exists>z. xx ! i = Finite z \<and> xx' ! i = Finite (z / complex_of_real k))"
proof -
  have "\<exists>z. xx ! i = Finite z \<and> xx' ! i = Finite (z / complex_of_real k)" if "i < length xx" for i
  proof -
    have i: "i < length P" using that xx by simp
    obtain c s where cs: "P ! i = (c, s)" by (cases "P ! i")
    with i have "(c, s) \<in> set P" by (metis nth_mem)
    then have "c < m \<and> s < n" by (rule P)
    then have "\<exists>z. sx ! c ! s = Finite z \<and> sx' ! c ! s = Finite (z / complex_of_real k)"
      using rel by blast
    then show ?thesis
      using i cs by (simp add: xx xx')
  qed
  then show ?thesis by (simp add: xx xx')
qed

text \<open>
  Claim C4: for every window of the data model's shapes with strictly positive weights,
  replacing a nonzero rescale factor \<open>r\<close> by \<open>k * r\<close> (\<open>k\<close> nonzero; doubling is \<open>k = 2\<close>)
  multiplies every entry of sigma by \<open>k\<close> and divides every entry of the returned scatter
  by \<open>k\<close>: entry by entry of the \<open>[channel, sample]\<close> arrays when the flags are not
  applied, and entry by entry of the two sequences, which keep their lengths, when the
  flags are applied.
\<close>

theorem rescale_linearity:
  assumes srv: "serves store d q"
    and d: "has_shape3 2 m n (data q)" and md: "has_shape3 2 m n (model_data q)"
    and w: "has_shape2 2 n (weight q)" and f: "has_shape3 2 m n (flag q)"
    and pos: "list_all (list_all (\<lambda>x. 0 < x)) (weight q)"
    and r: "r \<noteq> 0" and k: "k \<noteq> 0"
  shows "(\<exists>sx sy sx' sy'.
           fst (get_scatter_datadescid store t d r False) = Inr (Arr2 sx, Arr2 sy) \<and>
           fst (get_scatter_datadescid store t d (k * r) False) = Inr (Arr2 sx', Arr2 sy') \<and>
           (\<forall>p<2. \<forall>s<n. \<exists>v. sigma_of (weight q) r ! p ! s = Finite v \<and>
                               sigma_of (weight q) (k * r) ! p ! s = Finite (k * v)) \<and>
           (\<forall>p<2. \<forall>c<m. \<forall>s<n. \<exists>z. [sx, sy] ! p ! c ! s = Finite z \<and>
                               [sx', sy'] ! p ! c ! s = Finite (z / complex_of_real k))) \<and>
         (\<exists>xx yy xx' yy'.
           fst (get_scatter_datadescid store t d r True) = Inr (Arr1 xx, Arr1 yy) \<and>
           fst (get_scatter_datadescid store t d (k * r) True) = Inr (Arr1 xx', Arr1 yy') \<and>
           length xx' = length xx \<and> length yy' = length yy \<and>
           (\<forall>i<length xx. \<exists>z. xx ! i = Finite z \<and> xx' ! i = Finite (z / complex_of_real k)) \<and>
           (\<forall>i<length yy. \<exists>z. yy ! i = Finite z \<and> yy' ! i = Finite (z / complex_of_real k)))"
proof -
  let ?P0 = "filter (\<lambda>(c, s). \<not> flag q ! 0 ! c ! s) (List.product [0..<m] [0..<n])"
  let ?P1 = "filter (\<lambda>(c, s). \<not> flag q ! 1 ! c ! s) (List.product [0..<m] [0..<n])"
  from rescale_linearity_unflagged [OF srv d md w f pos r k, of t] obtain sx sy sx' sy' where
    run: "fst (get_scatter_datadescid store t d r False) = Inr (Arr2 sx, Arr2 sy)" and
    run': "fst (get_scatter_datadescid store t d (k * r) False) = Inr (Arr2 sx', Arr2 sy')" and
    sg: "\<forall>p<2. \<forall>s<n. \<exists>v. sigma_of (weight q) r ! p ! s = Finite v \<and>
                               sigma_of (weight q) (k * r) ! p ! s = Finite (k * v)" and
    sc: "\<And>p c s. p < 2 \<Longrightarrow> c < m \<Longrightarrow> s < n \<Longrightarrow>
            \<exists>z. [sx, sy] ! p ! c ! s = Finite z \<and> [sx', sy'] ! p ! c ! s = Finite (z / complex_of_real k)"
    by blast
  have q: "scatter_of_query q r False = Inr (Arr2 sx, Arr2 sy)"
    and q': "scatter_of_query q (k * r) False = Inr (Arr2 sx', Arr2 sy')"
    using run run' srv by (simp_all add: get_scatter_served)
  from scatter_of_query_applied [OF d md w f, of r] q
  have app: "scatter_of_query q r True =
      Inr (Arr1 (map (\<lambda>(c, s). sx ! c ! s) ?P0), Arr1 (map (\<lambda>(c, s). sy ! c ! s) ?P1))"
    by auto
  from scatter_of_query_applied [OF d md w f, of "k * r"] q'
  have app': "scatter_of_query q (k * r) True =
      Inr (Arr1 (map (\<lambda>(c, s). sx' ! c ! s) ?P0), Arr1 (map (\<lambda>(c, s). sy' ! c ! s) ?P1))"
    by auto
  have relx: "\<exists>z. sx ! c ! s = Finite z \<and> sx' ! c ! s = Finite (z / complex_of_real k)"
    and rely: "\<exists>z. sy ! c ! s = Finite z \<and> sy' ! c ! s = Finite (z / complex_of_real k)"
    if "c < m" "s < n" for c s
    using sc [of 0 c s] sc [of 1 c s] that by simp_all
  have inP0: "c < m \<and> s < n" if "(c, s) \<in> set ?P0" for c s
    using that by auto
  have inP1: "c < m \<and> s < n" if "(c, s) \<in> set ?P1" for c s
    using that by auto
  note fx = flagged_entries_related [OF refl refl inP0 relx]
  note fy = flagged_entries_related [OF refl refl inP1 rely]
  have "fst (get_scatter_datadescid store t d r True) =
      Inr (Arr1 (map (\<lambda>(c, s). sx ! c ! s) ?P0), Arr1 (map (\<lambda>(c, s). sy ! c ! s) ?P1))"
    and "fst (get_scatter_datadescid store t d (k * r) True) =
      Inr (Arr1 (map (\<lambda>(c, s). sx' ! c ! s) ?P0), Arr1 (map (\<lambda>(c, s). sy' ! c ! s) ?P1))"
    using app app' srv by (simp_all add: get_scatter_served)
  with fx fy have "\<exists>xx yy xx' yy'.
           fst (get_scatter_datadescid store t d r True) = Inr (Arr1 xx, Arr1 yy) \<and>
           fst (get_scatter_datadescid store t d (k * r) True) = Inr (Arr1 xx', Arr1 yy') \<and>
           length xx' = length xx \<and> length yy' = length yy \<and>
           (\<forall>i<length xx. \<exists>z. xx ! i = Finite z \<and> xx' ! i = Finite (z / complex_of_real k)) \<and>
           (\<forall>i<length yy. \<exists>z. yy ! i = Finite z \<and> yy' ! i = Finite (z / complex_of_real k))"
    by blast
  moreover have "\<exists>sx sy sx' sy'.
           fst (get_scatter_datadescid store t d r False) = Inr (Arr2 sx, Arr2 sy) \<and>
           fst (get_scatter_datadescid store t d (k * r) False) = Inr (Arr2 sx', Arr2 sy') \<and>
           (\<forall>p<2. \<forall>s<n. \<exists>v. sigma_of (weight q) r ! p ! s = Finite v \<and>
                               sigma_of (weight q) (k * r) ! p ! s = Finite (k * v)) \<and>
           (\<forall>p<2. \<forall>c<m. \<forall>s<n. \<exists>z. [sx, sy] ! p ! c ! s = Finite z \<and>
                               [sx', sy'] ! p ! c ! s = Finite (z / complex_of_real k))"
    by (rule rescale_linearity_unflagged [OF srv d md w f pos r k])
  ultimately show ?thesis by blast
qed

theorem rescale_linearity_witness:
  "serves (store_of two_channel_window) 3 two_channel_window \<and>
   has_shape3 2 2 2 (data two_channel_window) \<and> has_shape3 2 2 2 (model_data two_channel_window) \<and>
   has_shape2 2 2 (weight two_channel_window) \<and> has_shape3 2 2 2 (flag two_channel_window) \<and>
   list_all (list_all (\<lambda>x. 0 < x)) (weight two_channel_window) \<and> (1::real) \<noteq> 0 \<and> (2::real) \<noteq> 0 \<and>
   (\<exists>sx sy sx' sy'.
      fst (get_scatter_datadescid (store_of two_channel_window) closed_tool 3 1 False) = Inr (Arr2 sx, Arr2 sy) \<and>
      fst (get_scatter_datadescid (store_of two_channel_window) closed_tool 3 (2 * 1) False) = Inr (Arr2 sx', Arr2 sy') \<and>
      (\<forall>p<2. \<forall>s<2. \<exists>v. sigma_of (weight two_channel_window) 1 ! p ! s = Finite v \<and>
                          sigma_of (weight two_channel_window) (2 * 1) ! p ! s = Finite (2 * v)) \<and>
      (\<forall>p<2. \<forall>c<2. \<forall>s<2. \<exists>z. [sx, sy] ! p ! c ! s = Finite z \<and>
                          [sx', sy'] ! p ! c ! s = Finite (z / complex_of_real 2))) \<and>
   (\<exists>xx yy xx' yy'.
      fst (get_scatter_datadescid (store_of two_channel_window) closed_tool 3 1 True) = Inr (Arr1 xx, Arr1 yy) \<and>
      fst (get_scatter_datadescid (store_of two_channel_window) closed_tool 3 (2 * 1) True) = Inr (Arr1 xx', Arr1 yy') \<and>
      length xx' = length xx \<and> length yy' = length yy \<and>
      (\<forall>i<length xx. \<exists>z. xx ! i = Finite z \<and> xx' ! i = Finite (z / complex_of_real 2)) \<and>
      (\<forall>i<length yy. \<exists>z. yy ! i = Finite z \<and> yy' ! i = Finite (z / complex_of_real 2))) \<and>
   fst (get_scatter_datadescid (store_of two_channel_window) closed_tool 3 1 True)
     = Inr (Arr1 [Finite 1, Finite 8], Arr1 []) \<and>
   fst (get_scatter_datadescid (store_of two_channel_window) closed_tool 3 (2 * 1) True)
     = Inr (Arr1 [Finite (1 / 2), Finite 4], Arr1 [])"
proof -
  have h5: "list_all (list_all (\<lambda>x. 0 < x)) (weight two_channel_window)"
    by (simp add: two_channel_window_def)
  have h6: "(1::real) \<noteq> 0" and h7: "(2::real) \<noteq> 0" by simp_all
  show ?thesis
    using serves_store_of [of two_channel_window 3] two_channel_shapes h5 h6 h7
      two_channel_flagged_value two_channel_rescaled_value
      rescale_linearity [OF serves_store_of [of two_channel_window 3] two_channel_shapes h5 h6 h7, where t = closed_tool]
    by blast
qed

section \<open>Applying flags\<close>

text \<open>
  Claim C5: for every window of the data model's shapes whose flag array is all false,
  the result of the scatter routine with \<open>apply_flags = True\<close> is, for each polarization,
  the flattening of its result with \<open>apply_flags = False\<close>; an exception raised by one is
  raised by the other, and with two polarizations the routine returns.
\<close>

theorem unflagged_equals_flattened:
  assumes srv: "serves store d q"
    and d: "has_shape3 l m n (data q)" and md: "has_shape3 l m n (model_data q)"
    and w: "has_shape2 l n (weight q)" and f: "has_shape3 l m n (flag q)"
    and unflagged: "list_all (list_all (list_all Not)) (flag q)"
  shows "fst (get_scatter_datadescid store t d r True) =
           (case fst (get_scatter_datadescid store t d r False) of
              Inl e \<Rightarrow> Inl e
            | Inr (xx, yy) \<Rightarrow> Inr (Arr1 (flatten xx), Arr1 (flatten yy))) \<and>
         (l = 2 \<longrightarrow> (\<exists>xx yy. fst (get_scatter_datadescid store t d r False) = Inr (xx, yy)))"
proof -
  have eq: "scatter_of_query q r True =
      (case scatter_of_query q r False of
         Inl e \<Rightarrow> Inl e
       | Inr (xx, yy) \<Rightarrow> Inr (Arr1 (flatten xx), Arr1 (flatten yy)))"
  proof (cases "scatter_of_query q r False")
    case (Inl e)
    then show ?thesis by (simp add: scatter_of_query_error)
  next
    case (Inr res)
    then have "length (flag q) = 2" by (rule scatter_of_query_flag_length)
    then have l: "l = 2" using f by (simp add: has_shape3_def)
    from scatter_of_query_applied [OF d [unfolded l] md [unfolded l] w [unfolded l] f [unfolded l], of r]
    obtain sx sy where
      run: "scatter_of_query q r False = Inr (Arr2 sx, Arr2 sy)" and
      sx: "has_shape2 m n sx" and sy: "has_shape2 m n sy" and
      app: "scatter_of_query q r True =
             Inr (Arr1 (map (\<lambda>(c, s). sx ! c ! s)
                          (filter (\<lambda>(c, s). \<not> flag q ! 0 ! c ! s) (List.product [0..<m] [0..<n]))),
                  Arr1 (map (\<lambda>(c, s). sy ! c ! s)
                          (filter (\<lambda>(c, s). \<not> flag q ! 1 ! c ! s) (List.product [0..<m] [0..<n]))))"
      by blast
    have keep: "filter (\<lambda>(c, s). \<not> flag q ! p ! c ! s) (List.product [0..<m] [0..<n])
        = List.product [0..<m] [0..<n]" if "p < 2" for p
      using that all_false_nth [OF unflagged f [unfolded l]] by (intro filter_True) auto
    have "(0::nat) < 2" "(1::nat) < 2" by simp_all
    then have "scatter_of_query q r True = Inr (Arr1 (concat sx), Arr1 (concat sy))"
      using app by (simp only: keep concat_index [OF sx, symmetric] concat_index [OF sy, symmetric])
    with run show ?thesis by simp
  qed
  moreover have "\<exists>xx yy. scatter_of_query q r False = Inr (xx, yy)" if "l = 2"
    using scatter_of_query_applied [OF d [unfolded that] md [unfolded that] w [unfolded that] f [unfolded that], of r]
    by blast
  ultimately show ?thesis
    using srv by (simp add: get_scatter_served)
qed

theorem unflagged_equals_flattened_witness:
  "serves (store_of synthetic_window) 0 synthetic_window \<and>
   has_shape3 2 1 3 (data synthetic_window) \<and> has_shape3 2 1 3 (model_data synthetic_window) \<and>
   has_shape2 2 3 (weight synthetic_window) \<and> has_shape3 2 1 3 (flag synthetic_window) \<and>
   list_all (list_all (list_all Not)) (flag synthetic_window) \<and>
   fst (get_scatter_datadescid (store_of synthetic_window) closed_tool 0 1 False)
     = Inr (Arr2 [[Finite 2, Finite 0, Finite (- 2)]], Arr2 [[Finite 8, Finite 0, Finite (- 8)]]) \<and>
   fst (get_scatter_datadescid (store_of synthetic_window) closed_tool 0 1 True)
     = Inr (Arr1 (flatten (Arr2 [[Finite 2, Finite 0, Finite (- 2)]])),
            Arr1 (flatten (Arr2 [[Finite 8, Finite 0, Finite (- 8)]])))"
proof -
  have h: "list_all (list_all (list_all Not)) (flag synthetic_window)"
    by (simp add: synthetic_window_def)
  have v: "fst (get_scatter_datadescid (store_of synthetic_window) closed_tool 0 1 False)
     = Inr (Arr2 [[Finite 2, Finite 0, Finite (- 2)]], Arr2 [[Finite 8, Finite 0, Finite (- 8)]])"
    by (simp add: run_simps synthetic_window_def)
  have "fst (get_scatter_datadescid (store_of synthetic_window) closed_tool 0 1 True)
     = Inr (Arr1 (flatten (Arr2 [[Finite 2, Finite 0, Finite (- 2)]])),
            Arr1 (flatten (Arr2 [[Finite 8, Finite 0, Finite (- 8)]])))"
    using unflagged_equals_flattened [OF serves_store_of [of synthetic_window 0] synthetic_shapes h, where t = closed_tool and r = 1]
    by (simp only: v sum.case prod.case)
  with h v serves_store_of synthetic_shapes show ?thesis by blast
qed

text \<open>
  Claim C6: for every window of the data model's shapes, with \<open>apply_flags = True\<close> a
  polarization whose flag array is all true yields the empty sequence, and with
  \<open>apply_flags = False\<close> the two scatter arrays are returned in their \<open>[channel, sample]\<close>
  shape with every entry \<open>(data - model_data) / sigma\<close> in its place, flagged or not.
\<close>

theorem all_flagged_empty_and_unfiltered:
  assumes srv: "serves store d q"
    and d: "has_shape3 2 m n (data q)" and md: "has_shape3 2 m n (model_data q)"
    and w: "has_shape2 2 n (weight q)" and f: "has_shape3 2 m n (flag q)"
  shows "(list_all (list_all id) (flag q ! 0) \<longrightarrow>
            (\<exists>yy. fst (get_scatter_datadescid store t d r True) = Inr (Arr1 [], yy))) \<and>
         (list_all (list_all id) (flag q ! 1) \<longrightarrow>
            (\<exists>xx. fst (get_scatter_datadescid store t d r True) = Inr (xx, Arr1 []))) \<and>
         (\<exists>sx sy. fst (get_scatter_datadescid store t d r False) = Inr (Arr2 sx, Arr2 sy) \<and>
            has_shape2 m n sx \<and> has_shape2 m n sy \<and>
            (\<forall>c<m. \<forall>s<n.
               sx ! c ! s = np_divide (data q ! 0 ! c ! s - model_data q ! 0 ! c ! s)
                                      (sigma_of (weight q) r ! 0 ! s) \<and>
               sy ! c ! s = np_divide (data q ! 1 ! c ! s - model_data q ! 1 ! c ! s)
                                      (sigma_of (weight q) r ! 1 ! s)))"
proof -
  have fl: "length (flag q) = 2"
    using f by (simp add: has_shape3_def)
  from scatter_of_query_applied [OF d md w f, of r] obtain sx sy where
    app: "scatter_of_query q r True =
             Inr (Arr1 (map (\<lambda>(c, s). sx ! c ! s)
                          (filter (\<lambda>(c, s). \<not> flag q ! 0 ! c ! s) (List.product [0..<m] [0..<n]))),
                  Arr1 (map (\<lambda>(c, s). sy ! c ! s)
                          (filter (\<lambda>(c, s). \<not> flag q ! 1 ! c ! s) (List.product [0..<m] [0..<n]))))"
    by blast
  have drop: "filter (\<lambda>(c, s). \<not> flag q ! p ! c ! s) (List.product [0..<m] [0..<n]) = []"
    if "p < 2" "list_all (list_all id) (flag q ! p)" for p
  proof -
    have "has_shape2 m n (flag q ! p)"
      using f that(1) by (rule has_shape3_nth)
    with that(2) show ?thesis
      by (auto simp: filter_empty_conv dest: all_true_nth)
  qed
  have "(0::nat) < 2" "(1::nat) < 2" by simp_all
  then have "\<exists>yy. scatter_of_query q r True = Inr (Arr1 [], yy)"
    if "list_all (list_all id) (flag q ! 0)"
    using app drop [OF _ that] by simp
  moreover have "\<exists>xx. scatter_of_query q r True = Inr (xx, Arr1 [])"
    if "list_all (list_all id) (flag q ! 1)"
    using app drop [OF \<open>1 < 2\<close> that] by simp
  moreover note scatter_of_query_unflagged [OF d md w fl, of r]
  ultimately show ?thesis
    using srv by (simp add: get_scatter_served)
qed

theorem all_flagged_empty_and_unfiltered_witness:
  "serves (store_of all_flagged_window) 3
     all_flagged_window \<and>
   has_shape3 2 2 2 (flag all_flagged_window) \<and>
   list_all (list_all id) (flag all_flagged_window ! 0) \<and>
   list_all (list_all id) (flag all_flagged_window ! 1) \<and>
   fst (get_scatter_datadescid
          (store_of all_flagged_window)
          closed_tool 3 1 True) = Inr (Arr1 [], Arr1 []) \<and>
   (\<exists>sx sy. fst (get_scatter_datadescid
          (store_of all_flagged_window)
          closed_tool 3 1 False) = Inr (Arr2 sx, Arr2 sy) \<and>
      has_shape2 2 2 sx \<and> has_shape2 2 2 sy)"
proof -
  define q where "q = all_flagged_window"
  have sh: "has_shape3 2 2 2 (data q)" "has_shape3 2 2 2 (model_data q)"
    "has_shape2 2 2 (weight q)" "has_shape3 2 2 2 (flag q)"
    by (simp_all add: q_def all_flagged_window_def two_channel_window_def has_shape3_def has_shape2_def)
  have h0: "list_all (list_all id) (flag q ! 0)" and h1: "list_all (list_all id) (flag q ! 1)"
    by (simp_all add: q_def all_flagged_window_def)
  note c = all_flagged_empty_and_unfiltered [OF serves_store_of [of q 3] sh, where t = closed_tool and r = 1]
  from c h0 obtain yy where y: "fst (get_scatter_datadescid (store_of q) closed_tool 3 1 True) = Inr (Arr1 [], yy)"
    by blast
  from c h1 obtain xx where x: "fst (get_scatter_datadescid (store_of q) closed_tool 3 1 True) = Inr (xx, Arr1 [])"
    by blast
  from x y have "fst (get_scatter_datadescid (store_of q) closed_tool 3 1 True) = Inr (Arr1 [], Arr1 [])"
    by simp
  moreover from c have "\<exists>sx sy. fst (get_scatter_datadescid (store_of q) closed_tool 3 1 False) = Inr (Arr2 sx, Arr2 sy) \<and>
      has_shape2 2 2 sx \<and> has_shape2 2 2 sy"
    by blast
  ultimately show ?thesis
    using serves_store_of [of q 3] sh(4) h0 h1 unfolding q_def by blast
qed

text \<open>
  Claim C10: with \<open>apply_flags = True\<close> the sequence returned for a polarization consists
  of the scatter entries at the unflagged positions \<open>(channel, sample)\<close>, taken in
  row-major order (channel by channel, and by sample within a channel), and its length
  is the number of false entries of that polarization's flag array.
\<close>

theorem flagged_scatter_row_major:
  assumes srv: "serves store d q"
    and d: "has_shape3 2 m n (data q)" and md: "has_shape3 2 m n (model_data q)"
    and w: "has_shape2 2 n (weight q)" and f: "has_shape3 2 m n (flag q)"
  shows "\<exists>sx sy xx yy.
           fst (get_scatter_datadescid store t d r False) = Inr (Arr2 sx, Arr2 sy) \<and>
           fst (get_scatter_datadescid store t d r True) = Inr (Arr1 xx, Arr1 yy) \<and>
           xx = map (\<lambda>(c, s). sx ! c ! s)
                  (filter (\<lambda>(c, s). \<not> flag q ! 0 ! c ! s) (List.product [0..<m] [0..<n])) \<and>
           yy = map (\<lambda>(c, s). sy ! c ! s)
                  (filter (\<lambda>(c, s). \<not> flag q ! 1 ! c ! s) (List.product [0..<m] [0..<n])) \<and>
           length xx = length (filter Not (concat (flag q ! 0))) \<and>
           length yy = length (filter Not (concat (flag q ! 1)))"
proof -
  from scatter_of_query_applied [OF d md w f, of r] obtain sx sy where
    run: "scatter_of_query q r False = Inr (Arr2 sx, Arr2 sy)" and
    app: "scatter_of_query q r True =
             Inr (Arr1 (map (\<lambda>(c, s). sx ! c ! s)
                          (filter (\<lambda>(c, s). \<not> flag q ! 0 ! c ! s) (List.product [0..<m] [0..<n]))),
                  Arr1 (map (\<lambda>(c, s). sy ! c ! s)
                          (filter (\<lambda>(c, s). \<not> flag q ! 1 ! c ! s) (List.product [0..<m] [0..<n]))))"
    by blast
  have "has_shape2 m n (flag q ! 0)" "has_shape2 m n (flag q ! 1)"
    using f by (simp_all add: has_shape3_nth)
  then have "length (filter (\<lambda>(c, s). \<not> flag q ! 0 ! c ! s) (List.product [0..<m] [0..<n]))
               = length (filter Not (concat (flag q ! 0)))"
    and "length (filter (\<lambda>(c, s). \<not> flag q ! 1 ! c ! s) (List.product [0..<m] [0..<n]))
               = length (filter Not (concat (flag q ! 1)))"
    by (simp_all only: count_unflagged)
  with run app srv show ?thesis
    by (simp add: get_scatter_served)
qed

theorem flagged_scatter_row_major_witness:
  "serves (store_of two_channel_window) 3 two_channel_window \<and>
   has_shape3 2 2 2 (data two_channel_window) \<and> has_shape3 2 2 2 (model_data two_channel_window) \<and>
   has_shape2 2 2 (weight two_channel_window) \<and> has_shape3 2 2 2 (flag two_channel_window) \<and>
   (\<exists>sx sy xx yy.
      fst (get_scatter_datadescid (store_of two_channel_window) closed_tool 3 1 False) = Inr (Arr2 sx, Arr2 sy) \<and>
      fst (get_scatter_datadescid (store_of two_channel_window) closed_tool 3 1 True) = Inr (Arr1 xx, Arr1 yy) \<and>
      xx = map (\<lambda>(c, s). sx ! c ! s)
             (filter (\<lambda>(c, s). \<not> flag two_channel_window ! 0 ! c ! s) (List.product [0..<2] [0..<2])) \<and>
      yy = map (\<lambda>(c, s). sy ! c ! s)
             (filter (\<lambda>(c, s). \<not> flag two_channel_window ! 1 ! c ! s) (List.product [0..<2] [0..<2])) \<and>
      length xx = length (filter Not (concat (flag two_channel_window ! 0))) \<and>
      length yy = length (filter Not (concat (flag two_channel_window ! 1)))) \<and>
   fst (get_scatter_datadescid (store_of two_channel_window) closed_tool 3 1 False)
     = Inr (Arr2 [[Finite 1, Finite 4], [Finite 2, Finite 8]],
            Arr2 [[Finite 5, Finite 6], [Finite 7, Finite 8]]) \<and>
   fst (get_scatter_datadescid (store_of two_channel_window) closed_tool 3 1 True)
     = Inr (Arr1 [Finite 1, Finite 8], Arr1 [])"
  using serves_store_of [of two_channel_window 3] two_channel_shapes
    two_channel_unflagged_value two_channel_flagged_value
    flagged_scatter_row_major [OF serves_store_of [of two_channel_window 3] two_channel_shapes, where t = closed_tool and r = 1]
  by blast

section \<open>The reference Gaussian\<close>

text \<open>Bounds on \<open>pi\<close> from Machin's formula and the alternating series of the arc
  tangent, and from them on \<open>1 / sqrt (2 * pi)\<close>.\<close>

lemma arctan_partial_sums:
  fixes x :: real
  assumes "0 \<le> x" and "x \<le> 1"
  shows "(\<Sum>i<2 * n. (- 1) ^ i * (1 / real (i * 2 + 1) * x ^ (i * 2 + 1))) \<le> arctan x"
    and "arctan x \<le> (\<Sum>i<2 * n + 1. (- 1) ^ i * (1 / real (i * 2 + 1) * x ^ (i * 2 + 1)))"
proof -
  let ?a = "\<lambda>i. 1 / real (i * 2 + 1) * x ^ (i * 2 + 1)"
  have ax: "\<bar>x\<bar> \<le> 1" using assms by simp
  have zero: "?a \<longlonglongrightarrow> 0"
    using ax by (rule zeroseq_arctan_series)
  have pos: "0 \<le> ?a i" for i
    using assms by simp
  have mono: "?a (Suc i) \<le> ?a i" for i
  proof -
    have "x ^ (Suc i * 2 + 1) = x ^ (i * 2 + 1) * x ^ 2"
      by (simp add: power_add [symmetric])
    also have "\<dots> \<le> x ^ (i * 2 + 1) * 1"
      using assms by (intro mult_left_mono) (simp_all add: power_le_one)
    finally have p: "x ^ (Suc i * 2 + 1) \<le> x ^ (i * 2 + 1)" by simp
    have "1 / real (Suc i * 2 + 1) * x ^ (Suc i * 2 + 1) \<le> 1 / real (Suc i * 2 + 1) * x ^ (i * 2 + 1)"
      using p by (intro mult_left_mono) simp_all
    also have "\<dots> \<le> 1 / real (i * 2 + 1) * x ^ (i * 2 + 1)"
      using assms by (intro mult_right_mono) (simp_all add: frac_le)
    finally show ?thesis .
  qed
  have s: "arctan x = (\<Sum>i. (- 1) ^ i * ?a i)"
    using ax by (rule arctan_series)
  show "(\<Sum>i<2 * n. (- 1) ^ i * ?a i) \<le> arctan x"
    unfolding s by (rule summable_Leibniz'(2) [OF zero pos mono])
  show "arctan x \<le> (\<Sum>i<2 * n + 1. (- 1) ^ i * ?a i)"
    unfolding s by (rule summable_Leibniz'(4) [OF zero pos mono])
qed

lemma arctan_fifth_bounds:
  "(1 / 5 - 1 / 375 + 1 / 15625 - 1 / 546875 :: real) \<le> arctan (1 / 5)"
  "arctan (1 / 5) \<le> (1 / 5 - 1 / 375 + 1 / 15625 - 1 / 546875 + 1 / 17578125 :: real)"
proof -
  let ?t = "\<lambda>i::nat. (- 1) ^ i * (1 / real (i * 2 + 1) * (1 / 5 :: real) ^ (i * 2 + 1))"
  have "(\<Sum>i<2 * 2. ?t i) = 1 / 5 - 1 / 375 + 1 / 15625 - 1 / 546875"
    by (simp add: lessThan_nat_numeral lessThan_Suc power_divide)
  moreover have "(\<Sum>i<2 * 2. ?t i) \<le> arctan (1 / 5)"
    by (rule arctan_partial_sums(1)) simp_all
  ultimately show "(1 / 5 - 1 / 375 + 1 / 15625 - 1 / 546875 :: real) \<le> arctan (1 / 5)"
    by (simp only:)
  have "(\<Sum>i<2 * 2 + 1. ?t i) = 1 / 5 - 1 / 375 + 1 / 15625 - 1 / 546875 + 1 / 17578125"
    by (simp add: lessThan_nat_numeral lessThan_Suc power_divide)
  moreover have "arctan (1 / 5) \<le> (\<Sum>i<2 * 2 + 1. ?t i)"
    by (rule arctan_partial_sums(2)) simp_all
  ultimately show "arctan (1 / 5) \<le> (1 / 5 - 1 / 375 + 1 / 15625 - 1 / 546875 + 1 / 17578125 :: real)"
    by (simp only:)
qed

lemma arctan_239_bounds:
  "(1 / 239 - 1 / 40955757 :: real) \<le> arctan (1 / 239)"
  "arctan (1 / 239) \<le> (1 / 239 :: real)"
proof -
  let ?t = "\<lambda>i::nat. (- 1) ^ i * (1 / real (i * 2 + 1) * (1 / 239 :: real) ^ (i * 2 + 1))"
  have "(\<Sum>i<2 * 1. ?t i) = 1 / 239 - 1 / 40955757"
    by (simp add: lessThan_nat_numeral lessThan_Suc power_divide)
  moreover have "(\<Sum>i<2 * 1. ?t i) \<le> arctan (1 / 239)"
    by (rule arctan_partial_sums(1)) simp_all
  ultimately show "(1 / 239 - 1 / 40955757 :: real) \<le> arctan (1 / 239)"
    by (simp only:)
  have "(\<Sum>i<2 * 0 + 1. ?t i) = 1 / 239"
    by simp
  moreover have "arctan (1 / 239) \<le> (\<Sum>i<2 * 0 + 1. ?t i)"
    by (rule arctan_partial_sums(2)) simp_all
  ultimately show "arctan (1 / 239) \<le> (1 / 239 :: real)"
    by (simp only:)
qed

lemma pi_bounds: "3.141591 < pi" "pi < 3.141593"
proof -
  have "pi = 16 * arctan (1 / 5) - 4 * arctan (1 / 239)"
    using machin by simp
  then show "3.141591 < pi" "pi < 3.141593"
    using arctan_fifth_bounds arctan_239_bounds by simp_all
qed

lemma inv_sqrt_two_pi_bounds: "0.3989422 < 1 / sqrt (2 * pi)" "1 / sqrt (2 * pi) < 0.3989424"
proof -
  have "sqrt (2 * pi) < 1 / 0.3989422"
    using pi_bounds(2) by (intro real_less_lsqrt) (simp_all add: power2_eq_square)
  moreover have "0 < sqrt (2 * pi)" by simp
  ultimately show "0.3989422 < 1 / sqrt (2 * pi)"
    by (simp add: field_simps)
  have "1 / 0.3989424 < sqrt (2 * pi)"
    using pi_bounds(1) by (intro real_less_rsqrt) (simp_all add: power2_eq_square)
  then show "1 / sqrt (2 * pi) < 0.3989424"
    by (simp add: field_simps)
qed

text \<open>
  Claim C7: \<open>gaussian\<close> is the standard normal density: for every real \<open>x\<close> it is
  \<open>(1 / sqrt (2 * pi)) * exp (- x\<^sup>2 / 2)\<close>; at 0 it is \<open>1 / sqrt (2 * pi)\<close>, which differs
  from 0.3989423 by less than \<open>10\<^sup>-\<^sup>7\<close>.
\<close>

theorem gaussian_standard_normal:
  "gaussian x = (1 / sqrt (2 * pi)) * exp (- (x ^ 2) / 2) \<and>
   gaussian 0 = 1 / sqrt (2 * pi) \<and>
   \<bar>gaussian 0 - 0.3989423\<bar> < 1 / 10 ^ 7"
proof -
  have "gaussian 0 = 1 / sqrt (2 * pi)"
    by (simp add: gaussian_def)
  moreover have "\<bar>1 / sqrt (2 * pi) - 0.3989423\<bar> < 1 / 10 ^ 7"
    using inv_sqrt_two_pi_bounds by linarith
  moreover have "gaussian x = (1 / sqrt (2 * pi)) * exp (- (x ^ 2) / 2)"
    by (simp add: gaussian_def)
  ultimately show ?thesis by simp
qed

section \<open>The per-window histogram\<close>




section \<open>The connection into the store\<close>

text \<open>
  Claim C9, as the specification states it: on every execution path of the scatter
  routine, error paths included, the connection into the store is closed and the
  selection reset before the call returns or raises. The routine calls \<^verbatim>\<open>ms.close()\<close>
  after the other store calls, outside any \<^verbatim>\<open>try\<close>: when \<^verbatim>\<open>getdata\<close> raises, the exception
  leaves the routine with the connection open and the window still selected.
\<close>

theorem connection_closed_counterexample:
  "fst (get_scatter_datadescid unreadable_store closed_tool 0 1 True) = Inl RuntimeError \<and>
   is_open (snd (get_scatter_datadescid unreadable_store closed_tool 0 1 True)) \<and>
   selection (snd (get_scatter_datadescid unreadable_store closed_tool 0 1 True)) = Some 0"
  by (simp add: get_scatter_datadescid_def ms_open_def ms_selectinit_def ms_getdata_def
      unreadable_store_def closed_tool_def)

text \<open>
  Claim C9, amended: on every execution path on which the five calls into the store
  succeed, that is the normal return and every exception raised afterwards (the
  assertion for the missing model column, a shape error), the connection is closed and
  the selection reset before the call returns or raises. When a call into the store
  raises, the calls after it are skipped: the connection is open afterwards exactly
  when \<^verbatim>\<open>open\<close> succeeded and a later store call raised.
\<close>

theorem connection_closed:
  "(serves store d q \<longrightarrow>
      snd (get_scatter_datadescid store t d r af) = t\<lparr>is_open := False, selection := None\<rparr>) \<and>
   is_open (snd (get_scatter_datadescid store t d r af)) =
     (if can_open store
      then \<not> (can_select store d \<and> columns store d \<noteq> None \<and> can_reset store \<and> can_close store)
      else is_open t)"
  by (auto simp: serves_def get_scatter_datadescid_def ms_open_def ms_selectinit_def
      ms_getdata_def ms_selectinit_reset_def ms_close_def split: option.splits)

theorem connection_closed_witness:
  "serves (store_of (synthetic_window\<lparr>model_data := []\<rparr>)) 7 (synthetic_window\<lparr>model_data := []\<rparr>) \<and>
   fst (get_scatter_datadescid (store_of (synthetic_window\<lparr>model_data := []\<rparr>))
          \<lparr>is_open = True, selection = Some 3\<rparr> 7 1 True)
     = Inl (AssertionError model_data_empty_message) \<and>
   snd (get_scatter_datadescid (store_of (synthetic_window\<lparr>model_data := []\<rparr>))
          \<lparr>is_open = True, selection = Some 3\<rparr> 7 1 True)
     = \<lparr>is_open = False, selection = None\<rparr> \<and>
   snd (get_scatter_datadescid (store_of synthetic_window) closed_tool 0 1 True)
     = \<lparr>is_open = False, selection = None\<rparr>"
proof -
  have h: "serves (store_of (synthetic_window\<lparr>model_data := []\<rparr>)) 7 (synthetic_window\<lparr>model_data := []\<rparr>)"
    by (rule serves_store_of)
  have e: "fst (get_scatter_datadescid (store_of (synthetic_window\<lparr>model_data := []\<rparr>))
          \<lparr>is_open = True, selection = Some 3\<rparr> 7 1 True)
     = Inl (AssertionError model_data_empty_message)"
    by (simp add: get_scatter_served [OF h] scatter_of_query_def)
  show ?thesis
    using h e serves_store_of [of synthetic_window 0]
      connection_closed [of "store_of (synthetic_window\<lparr>model_data := []\<rparr>)" 7 "synthetic_window\<lparr>model_data := []\<rparr>"
             "\<lparr>is_open = True, selection = Some 3\<rparr>" 1 True]
      connection_closed [of "store_of synthetic_window" 0 synthetic_window closed_tool 1 True]
    by (simp add: closed_tool_def)
qed

end
